theory Spec2Isabelle
  imports Complex_Main
begin

section \<open>The responsive service: data model\<close>

text \<open>
  The development embeds \<^verbatim>\<open>ResponsiveService\<close> (responsive.service.ts). String-literal
  union types of the source are datatypes, the \<^verbatim>\<open>ResponsiveState\<close> interface is a record.
\<close>

datatype TailwindBreakpoint = BP_xs | BP_sm | BP_md | BP_lg | BP_xl | BP_2xl

datatype Platform = Mobile | Tablet | Desktop

datatype Browser = Chrome | Firefox | Safari | Edge | OtherBrowser

datatype OS = Windows | MacOS | Linux | IOS | Android | OtherOS

record ResponsiveState =
  breakpoint :: TailwindBreakpoint
  isMobile :: bool
  isTablet :: bool
  isDesktop :: bool
  isPortrait :: bool
  isLandscape :: bool
  isTouchEnabled :: bool
  platform :: Platform
  browser :: Browser
  os :: OS
  prefersDark :: bool

text \<open>The names the source splices into class names (\<^verbatim>\<open>`bp-${bp}`\<close> and so on).\<close>

fun bp_name :: "TailwindBreakpoint \<Rightarrow> string" where
  "bp_name BP_xs = ''xs''"
| "bp_name BP_sm = ''sm''"
| "bp_name BP_md = ''md''"
| "bp_name BP_lg = ''lg''"
| "bp_name BP_xl = ''xl''"
| "bp_name BP_2xl = ''2xl''"

fun platform_name :: "Platform \<Rightarrow> string" where
  "platform_name Mobile = ''mobile''"
| "platform_name Tablet = ''tablet''"
| "platform_name Desktop = ''desktop''"

fun browser_name :: "Browser \<Rightarrow> string" where
  "browser_name Chrome = ''chrome''"
| "browser_name Firefox = ''firefox''"
| "browser_name Safari = ''safari''"
| "browser_name Edge = ''edge''"
| "browser_name OtherBrowser = ''other''"

fun os_name :: "OS \<Rightarrow> string" where
  "os_name Windows = ''windows''"
| "os_name MacOS = ''macos''"
| "os_name Linux = ''linux''"
| "os_name IOS = ''ios''"
| "os_name Android = ''android''"
| "os_name OtherOS = ''other''"

section \<open>The ambient environment\<close>

text \<open>
  The media queries the service issues, as terms: \<^verbatim>\<open>(min-width: Npx)\<close>, \<^verbatim>\<open>(max-width: Npx)\<close>,
  \<^verbatim>\<open>a and b\<close>, the two orientation queries and \<^verbatim>\<open>(prefers-color-scheme: dark)\<close>.
\<close>

datatype media_query =
    MinWidth real
  | MaxWidth real
  | MQ_and media_query media_query
  | Orientation_portrait
  | Orientation_landscape
  | PrefersColorScheme_dark

text \<open>
  What \<^verbatim>\<open>window\<close> and \<^verbatim>\<open>navigator\<close> report. The viewport is measured in CSS pixels, which
  need not be whole numbers (page zoom, fractional device pixel ratios), so widths are reals.
\<close>

record Window =
  viewportWidth :: real
  viewportHeight :: real
  prefersColorSchemeDark :: bool
  userAgent :: string
  ontouchstart :: bool
  maxTouchPoints :: nat

text \<open>\<^verbatim>\<open>window.matchMedia(q).matches\<close>, after the media queries specification.\<close>

fun matchMedia :: "Window \<Rightarrow> media_query \<Rightarrow> bool" where
  "matchMedia w (MinWidth n) = (n \<le> viewportWidth w)"
| "matchMedia w (MaxWidth n) = (viewportWidth w \<le> n)"
| "matchMedia w (MQ_and a b) = (matchMedia w a \<and> matchMedia w b)"
| "matchMedia w Orientation_portrait = (viewportWidth w \<le> viewportHeight w)"
| "matchMedia w Orientation_landscape = (viewportHeight w < viewportWidth w)"
| "matchMedia w PrefersColorScheme_dark = prefersColorSchemeDark w"

text \<open>
  The injected facts: \<^verbatim>\<open>isPlatformBrowser(platformId)\<close>, the CDK's \<^verbatim>\<open>Platform.isBrowser\<close>, and
  the global \<^verbatim>\<open>window\<close> (with \<^verbatim>\<open>navigator\<close> and \<^verbatim>\<open>document\<close>), absent during server-side
  rendering.
\<close>

record env =
  isBrowser :: bool
  cdkPlatform_isBrowser :: bool
  window :: "Window option"

definition browser_env :: "env \<Rightarrow> bool" where
  "browser_env e = (isBrowser e \<and> cdkPlatform_isBrowser e \<and> window e \<noteq> None)"

definition server_env :: "env \<Rightarrow> bool" where
  "server_env e = (\<not> isBrowser e \<and> \<not> cdkPlatform_isBrowser e \<and> window e = None)"

text \<open>Reading a global that does not exist raises.\<close>

datatype error = ReferenceError

definition bind_result :: "error + 'a \<Rightarrow> ('a \<Rightarrow> error + 'b) \<Rightarrow> error + 'b" where
  "bind_result r f = (case r of Inl err \<Rightarrow> Inl err | Inr v \<Rightarrow> f v)"

text \<open>\<^verbatim>\<open>a && f()\<close> on booleans: \<^verbatim>\<open>f\<close> is not called when \<^verbatim>\<open>a\<close> is false.\<close>

definition and_also :: "bool \<Rightarrow> error + bool \<Rightarrow> error + bool" where
  "and_also a r = (if a then r else Inr False)"

section \<open>The CDK's BreakpointObserver\<close>

text \<open>
  \<^verbatim>\<open>BreakpointObserver.isMatched\<close>. In a browser it asks \<^verbatim>\<open>window.matchMedia\<close>; elsewhere the
  CDK's media matcher substitutes a stub whose queries do not match (the stub matches only the
  queries \<^verbatim>\<open>all\<close> and the empty one, which the service never issues).
\<close>

definition isMatched :: "env \<Rightarrow> media_query \<Rightarrow> bool" where
  "isMatched e q =
     (case window e of
        None \<Rightarrow> False
      | Some w \<Rightarrow> cdkPlatform_isBrowser e \<and> matchMedia w q)"

text \<open>
  The value \<^verbatim>\<open>BreakpointObserver.observe\<close> holds for a list of queries: whether any matches,
  and the match state of each, keyed by query.
\<close>

record BreakpointState =
  matches :: bool
  breakpoints :: "media_query \<rightharpoonup> bool"

definition breakpointObserver_observe :: "env \<Rightarrow> media_query list \<Rightarrow> BreakpointState" where
  "breakpointObserver_observe e qs =
     \<lparr> matches = list_ex (isMatched e) qs,
       breakpoints = map_of (map (\<lambda>q. (q, isMatched e q)) qs) \<rparr>"

text \<open>Truthiness of \<^verbatim>\<open>result.breakpoints[key]\<close>: a missing key reads \<^verbatim>\<open>undefined\<close>.\<close>

definition truthy :: "bool option \<Rightarrow> bool" where
  "truthy v = (v = Some True)"

section \<open>The service\<close>

subsection \<open>Queries\<close>

definition TAILWIND_BREAKPOINTS_sm :: media_query where
  "TAILWIND_BREAKPOINTS_sm = MinWidth 640"

definition TAILWIND_BREAKPOINTS_md :: media_query where
  "TAILWIND_BREAKPOINTS_md = MinWidth 768"

definition TAILWIND_BREAKPOINTS_lg :: media_query where
  "TAILWIND_BREAKPOINTS_lg = MinWidth 1024"

definition TAILWIND_BREAKPOINTS_xl :: media_query where
  "TAILWIND_BREAKPOINTS_xl = MinWidth 1280"

definition TAILWIND_BREAKPOINTS_2xl :: media_query where
  "TAILWIND_BREAKPOINTS_2xl = MinWidth 1536"

text \<open>The queries behind \<^verbatim>\<open>isMobile$\<close>, \<^verbatim>\<open>isTablet$\<close> and \<^verbatim>\<open>isDesktop$\<close>.\<close>

definition isMobile_query :: media_query where
  "isMobile_query = MaxWidth 767"

definition isTablet_query :: media_query where
  "isTablet_query = MQ_and (MinWidth 768) (MaxWidth 1023)"

definition isDesktop_query :: media_query where
  "isDesktop_query = MinWidth 1024"

text \<open>
  \<^verbatim>\<open>observe(mediaQuery)\<close>: the current value of the stream, \<^verbatim>\<open>result.matches\<close>. The operators
  \<^verbatim>\<open>distinctUntilChanged\<close> and \<^verbatim>\<open>shareReplay(1)\<close> are modelled where the streams are stepped.
\<close>

definition observe :: "env \<Rightarrow> media_query \<Rightarrow> bool" where
  "observe e mediaQuery = matches (breakpointObserver_observe e [mediaQuery])"

definition checkMatch :: "env \<Rightarrow> media_query \<Rightarrow> bool" where
  "checkMatch e mediaQuery = isMatched e mediaQuery"

subsection \<open>The current breakpoint\<close>

definition currentBreakpoint_map :: "BreakpointState \<Rightarrow> TailwindBreakpoint" where
  "currentBreakpoint_map result =
     (if truthy (breakpoints result TAILWIND_BREAKPOINTS_2xl) then BP_2xl
      else if truthy (breakpoints result TAILWIND_BREAKPOINTS_xl) then BP_xl
      else if truthy (breakpoints result TAILWIND_BREAKPOINTS_lg) then BP_lg
      else if truthy (breakpoints result TAILWIND_BREAKPOINTS_md) then BP_md
      else if truthy (breakpoints result TAILWIND_BREAKPOINTS_sm) then BP_sm
      else BP_xs)"

definition currentBreakpoint_value :: "env \<Rightarrow> TailwindBreakpoint" where
  "currentBreakpoint_value e =
     currentBreakpoint_map
       (breakpointObserver_observe e
          [TAILWIND_BREAKPOINTS_sm, TAILWIND_BREAKPOINTS_md, TAILWIND_BREAKPOINTS_lg,
           TAILWIND_BREAKPOINTS_xl, TAILWIND_BREAKPOINTS_2xl])"

subsection \<open>Detection\<close>

text \<open>
  \<^verbatim>\<open>String.prototype.toLowerCase\<close> and \<^verbatim>\<open>includes\<close> on the user agent, a string of ASCII
  characters: the letters A to Z are mapped to a to z.
\<close>

definition toLowerChar :: "char \<Rightarrow> char" where
  "toLowerChar c =
     (case map_of (zip ''ABCDEFGHIJKLMNOPQRSTUVWXYZ'' ''abcdefghijklmnopqrstuvwxyz'') c of
        None \<Rightarrow> c
      | Some l \<Rightarrow> l)"

definition toLowerCase :: "string \<Rightarrow> string" where
  "toLowerCase s = map toLowerChar s"

fun startsWith :: "string \<Rightarrow> string \<Rightarrow> bool" where
  "startsWith s [] = True"
| "startsWith [] (p # ps) = False"
| "startsWith (c # cs) (p # ps) = (c = p \<and> startsWith cs ps)"

fun includes_str :: "string \<Rightarrow> string \<Rightarrow> bool" where
  "includes_str [] pat = (pat = [])"
| "includes_str (c # cs) pat = (startsWith (c # cs) pat \<or> includes_str cs pat)"

definition detectTouch :: "env \<Rightarrow> error + bool" where
  "detectTouch e =
     (if \<not> cdkPlatform_isBrowser e then Inr False
      else case window e of
             None \<Rightarrow> Inl ReferenceError
           | Some w \<Rightarrow> Inr (ontouchstart w \<or> 0 < maxTouchPoints w))"

definition detectPlatform :: "env \<Rightarrow> Platform" where
  "detectPlatform e =
     (if checkMatch e TAILWIND_BREAKPOINTS_lg then Desktop
      else if checkMatch e TAILWIND_BREAKPOINTS_md then Tablet
      else Mobile)"

definition detectBrowser :: "env \<Rightarrow> error + Browser" where
  "detectBrowser e =
     (if \<not> cdkPlatform_isBrowser e then Inr OtherBrowser
      else case window e of
             None \<Rightarrow> Inl ReferenceError
           | Some w \<Rightarrow>
               (let ua = toLowerCase (userAgent w) in
                if includes_str ua ''edg/'' then Inr Edge
                else if includes_str ua ''chrome'' then Inr Chrome
                else if includes_str ua ''firefox'' then Inr Firefox
                else if includes_str ua ''safari'' \<and> \<not> includes_str ua ''chrome'' then Inr Safari
                else Inr OtherBrowser))"

definition detectOS :: "env \<Rightarrow> error + OS" where
  "detectOS e =
     (if \<not> cdkPlatform_isBrowser e then Inr OtherOS
      else case window e of
             None \<Rightarrow> Inl ReferenceError
           | Some w \<Rightarrow>
               (let ua = toLowerCase (userAgent w) in
                if includes_str ua ''win'' then Inr Windows
                else if includes_str ua ''mac'' then Inr MacOS
                else if includes_str ua ''linux'' then Inr Linux
                else if includes_str ua ''iphone'' \<or> includes_str ua ''ipad'' then Inr IOS
                else if includes_str ua ''android'' then Inr Android
                else Inr OtherOS))"

definition getPrefersDark :: "env \<Rightarrow> error + bool" where
  "getPrefersDark e =
     (case window e of
        None \<Rightarrow> Inl ReferenceError
      | Some w \<Rightarrow> Inr (matchMedia w PrefersColorScheme_dark))"

subsection \<open>The snapshot\<close>

text \<open>
  The function \<^verbatim>\<open>state$\<close> maps over \<^verbatim>\<open>currentBreakpoint$\<close>: it receives the breakpoint and
  reads everything else from the environment as it is at that moment.
\<close>

definition state_map :: "env \<Rightarrow> TailwindBreakpoint \<Rightarrow> error + ResponsiveState" where
  "state_map e bp =
     (let isMobile' = \<not> checkMatch e TAILWIND_BREAKPOINTS_md;
          isTablet' = (checkMatch e TAILWIND_BREAKPOINTS_md \<and> \<not> checkMatch e TAILWIND_BREAKPOINTS_lg);
          isDesktop' = checkMatch e TAILWIND_BREAKPOINTS_lg
      in
      bind_result (and_also (isBrowser e) (detectTouch e)) (\<lambda>touch.
      bind_result (detectBrowser e) (\<lambda>browser'.
      bind_result (detectOS e) (\<lambda>os'.
      bind_result (and_also (isBrowser e) (getPrefersDark e)) (\<lambda>dark.
        Inr \<lparr> breakpoint = bp,
              isMobile = isMobile',
              isTablet = isTablet',
              isDesktop = isDesktop',
              isPortrait = (isBrowser e \<and> checkMatch e Orientation_portrait),
              isLandscape = (isBrowser e \<and> checkMatch e Orientation_landscape),
              isTouchEnabled = touch,
              platform = (if isDesktop' then Desktop else if isTablet' then Tablet else Mobile),
              browser = browser',
              os = os',
              prefersDark = dark \<rparr>)))))"

subsection \<open>The root element's class list\<close>

text \<open>\<^verbatim>\<open>html.classList\<close> is a set of tokens; \<^verbatim>\<open>toggle\<close> is always called with its force flag.\<close>

definition classList_add :: "string \<Rightarrow> string set \<Rightarrow> string set" where
  "classList_add c html = insert c html"

definition classList_remove :: "string list \<Rightarrow> string set \<Rightarrow> string set" where
  "classList_remove cs html = html - set cs"

definition classList_toggle :: "string \<Rightarrow> bool \<Rightarrow> string set \<Rightarrow> string set" where
  "classList_toggle c force html = (if force then insert c html else html - {c})"

text \<open>The callbacks \<^verbatim>\<open>applyClassesToHtml\<close> subscribes.\<close>

definition breakpoint_subscriber :: "TailwindBreakpoint \<Rightarrow> string set \<Rightarrow> string set" where
  "breakpoint_subscriber bp html =
     classList_add (''bp-'' @ bp_name bp)
       (classList_remove [''bp-xs'', ''bp-sm'', ''bp-md'', ''bp-lg'', ''bp-xl'', ''bp-2xl''] html)"

definition orientation_subscriber :: "bool \<Rightarrow> string set \<Rightarrow> string set" where
  "orientation_subscriber match html =
     classList_toggle ''orientation-landscape'' (\<not> match)
       (classList_toggle ''orientation-portrait'' match html)"

definition updateColorScheme :: "bool \<Rightarrow> string set \<Rightarrow> string set" where
  "updateColorScheme e_matches html =
     classList_toggle ''prefers-light'' (\<not> e_matches)
       (classList_toggle ''prefers-dark'' e_matches html)"

subsection \<open>The service's state\<close>

text \<open>
  Each \<^verbatim>\<open>sig_\<close> field is the value a public signal returns: the last value its stream
  emitted. The snapshot is optional because the computed accessors read it with
  \<^verbatim>\<open>?.\<close> and \<^verbatim>\<open>??\<close>. The class list of the root element is carried along.
\<close>

record service =
  environment :: env
  html_classList :: "string set"
  sig_isSm :: bool
  sig_isMd :: bool
  sig_isLg :: bool
  sig_isXl :: bool
  sig_is2xl :: bool
  sig_isMobile :: bool
  sig_isTablet :: bool
  sig_isDesktop :: bool
  sig_isPortrait :: bool
  sig_isLandscape :: bool
  sig_currentBreakpoint :: TailwindBreakpoint
  sig_state :: "ResponsiveState option"

definition sig_platform :: "service \<Rightarrow> Platform" where
  "sig_platform s = (case sig_state s of None \<Rightarrow> Desktop | Some st \<Rightarrow> platform st)"

definition sig_browser :: "service \<Rightarrow> Browser" where
  "sig_browser s = (case sig_state s of None \<Rightarrow> OtherBrowser | Some st \<Rightarrow> browser st)"

definition sig_os :: "service \<Rightarrow> OS" where
  "sig_os s = (case sig_state s of None \<Rightarrow> OtherOS | Some st \<Rightarrow> os st)"

subsection \<open>Construction\<close>

definition applyClassesToHtml :: "service \<Rightarrow> error + service" where
  "applyClassesToHtml s =
     (let e = environment s in
      case window e of
        None \<Rightarrow> Inl ReferenceError
      | Some w \<Rightarrow>
          (let html1 = breakpoint_subscriber (sig_currentBreakpoint s) (html_classList s);
               html2 = classList_toggle ''mobile'' (sig_isMobile s) html1;
               html3 = classList_toggle ''tablet'' (sig_isTablet s) html2;
               html4 = classList_toggle ''desktop'' (sig_isDesktop s) html3;
               html5 = orientation_subscriber (sig_isPortrait s) html4;
               html6 = classList_add (''platform-'' @ platform_name (detectPlatform e)) html5
           in
           bind_result (detectBrowser e) (\<lambda>browser'.
           bind_result (detectOS e) (\<lambda>os'.
           bind_result (detectTouch e) (\<lambda>touchEnabled.
             (let html7 = classList_add (''browser-'' @ browser_name browser') html6;
                  html8 = classList_add (''os-'' @ os_name os') html7;
                  html9 = classList_toggle ''touch-enabled'' touchEnabled html8;
                  html10 = classList_toggle ''touch-disabled'' (\<not> touchEnabled) html9;
                  html11 = updateColorScheme (matchMedia w PrefersColorScheme_dark) html10
              in Inr (s\<lparr>html_classList := html11\<rparr>)))))))"

text \<open>
  The field initialisers subscribe every stream (\<^verbatim>\<open>toSignal\<close> with \<^verbatim>\<open>requireSync\<close>), then the
  constructor body runs. \<^verbatim>\<open>html\<close> is the class list the root element has before.
\<close>

definition construct :: "env \<Rightarrow> string set \<Rightarrow> error + service" where
  "construct e html =
     (let bp = currentBreakpoint_value e in
      bind_result (state_map e bp) (\<lambda>st.
        (let s = \<lparr> environment = e,
                   html_classList = html,
                   sig_isSm = observe e TAILWIND_BREAKPOINTS_sm,
                   sig_isMd = observe e TAILWIND_BREAKPOINTS_md,
                   sig_isLg = observe e TAILWIND_BREAKPOINTS_lg,
                   sig_isXl = observe e TAILWIND_BREAKPOINTS_xl,
                   sig_is2xl = observe e TAILWIND_BREAKPOINTS_2xl,
                   sig_isMobile = observe e isMobile_query,
                   sig_isTablet = observe e isTablet_query,
                   sig_isDesktop = observe e isDesktop_query,
                   sig_isPortrait = observe e Orientation_portrait,
                   sig_isLandscape = observe e Orientation_landscape,
                   sig_currentBreakpoint = bp,
                   sig_state = Some st \<rparr>
         in if isBrowser e then applyClassesToHtml s else Inr s)))"

subsection \<open>Change notifications\<close>

text \<open>
  What can change while the page lives: the viewport (a resize, which also decides the
  orientation) and the system colour scheme.
\<close>

datatype event = Resize real real | ColorSchemeChange bool

fun apply_event :: "event \<Rightarrow> Window \<Rightarrow> Window" where
  "apply_event (Resize width height) w = w\<lparr>viewportWidth := width, viewportHeight := height\<rparr>"
| "apply_event (ColorSchemeChange dark) w = w\<lparr>prefersColorSchemeDark := dark\<rparr>"

text \<open>\<^verbatim>\<open>distinctUntilChanged\<close>: a value passes when it differs from the last one emitted.\<close>

definition distinctUntilChanged :: "'a \<Rightarrow> 'a \<Rightarrow> bool" where
  "distinctUntilChanged previous current = (current \<noteq> previous)"

text \<open>
  One function per stream: the new value is computed from the environment, and when it
  passes, the signal takes it and the stream's subscriber (if the constructor subscribed
  one) runs.
\<close>

definition next_isSm :: "service \<Rightarrow> service" where
  "next_isSm s =
     (let match = observe (environment s) TAILWIND_BREAKPOINTS_sm in
      if distinctUntilChanged (sig_isSm s) match then s\<lparr>sig_isSm := match\<rparr> else s)"

definition next_isMd :: "service \<Rightarrow> service" where
  "next_isMd s =
     (let match = observe (environment s) TAILWIND_BREAKPOINTS_md in
      if distinctUntilChanged (sig_isMd s) match then s\<lparr>sig_isMd := match\<rparr> else s)"

definition next_isLg :: "service \<Rightarrow> service" where
  "next_isLg s =
     (let match = observe (environment s) TAILWIND_BREAKPOINTS_lg in
      if distinctUntilChanged (sig_isLg s) match then s\<lparr>sig_isLg := match\<rparr> else s)"

definition next_isXl :: "service \<Rightarrow> service" where
  "next_isXl s =
     (let match = observe (environment s) TAILWIND_BREAKPOINTS_xl in
      if distinctUntilChanged (sig_isXl s) match then s\<lparr>sig_isXl := match\<rparr> else s)"

definition next_is2xl :: "service \<Rightarrow> service" where
  "next_is2xl s =
     (let match = observe (environment s) TAILWIND_BREAKPOINTS_2xl in
      if distinctUntilChanged (sig_is2xl s) match then s\<lparr>sig_is2xl := match\<rparr> else s)"

definition next_isMobile :: "service \<Rightarrow> service" where
  "next_isMobile s =
     (let match = observe (environment s) isMobile_query in
      if distinctUntilChanged (sig_isMobile s) match
      then s\<lparr>sig_isMobile := match,
              html_classList :=
                (if isBrowser (environment s)
                 then classList_toggle ''mobile'' match (html_classList s)
                 else html_classList s)\<rparr>
      else s)"

definition next_isTablet :: "service \<Rightarrow> service" where
  "next_isTablet s =
     (let match = observe (environment s) isTablet_query in
      if distinctUntilChanged (sig_isTablet s) match
      then s\<lparr>sig_isTablet := match,
              html_classList :=
                (if isBrowser (environment s)
                 then classList_toggle ''tablet'' match (html_classList s)
                 else html_classList s)\<rparr>
      else s)"

definition next_isDesktop :: "service \<Rightarrow> service" where
  "next_isDesktop s =
     (let match = observe (environment s) isDesktop_query in
      if distinctUntilChanged (sig_isDesktop s) match
      then s\<lparr>sig_isDesktop := match,
              html_classList :=
                (if isBrowser (environment s)
                 then classList_toggle ''desktop'' match (html_classList s)
                 else html_classList s)\<rparr>
      else s)"

definition next_isPortrait :: "service \<Rightarrow> service" where
  "next_isPortrait s =
     (let match = observe (environment s) Orientation_portrait in
      if distinctUntilChanged (sig_isPortrait s) match
      then s\<lparr>sig_isPortrait := match,
              html_classList :=
                (if isBrowser (environment s)
                 then orientation_subscriber match (html_classList s)
                 else html_classList s)\<rparr>
      else s)"

definition next_isLandscape :: "service \<Rightarrow> service" where
  "next_isLandscape s =
     (let match = observe (environment s) Orientation_landscape in
      if distinctUntilChanged (sig_isLandscape s) match then s\<lparr>sig_isLandscape := match\<rparr> else s)"

text \<open>
  \<^verbatim>\<open>currentBreakpoint$\<close> feeds \<^verbatim>\<open>state$\<close>: a snapshot is computed when, and only when, a
  breakpoint passes \<^verbatim>\<open>distinctUntilChanged\<close>.
\<close>

definition next_currentBreakpoint :: "service \<Rightarrow> error + service" where
  "next_currentBreakpoint s =
     (let bp = currentBreakpoint_value (environment s) in
      if distinctUntilChanged (sig_currentBreakpoint s) bp
      then bind_result (state_map (environment s) bp) (\<lambda>st.
             Inr (s\<lparr>sig_currentBreakpoint := bp,
                     sig_state := Some st,
                     html_classList :=
                       (if isBrowser (environment s)
                        then breakpoint_subscriber bp (html_classList s)
                        else html_classList s)\<rparr>))
      else Inr s)"

text \<open>The \<^verbatim>\<open>change\<close> listener on \<^verbatim>\<open>darkModeQuery\<close>, registered by \<^verbatim>\<open>applyClassesToHtml\<close>.\<close>

definition darkModeQuery_change :: "Window \<Rightarrow> Window \<Rightarrow> service \<Rightarrow> service" where
  "darkModeQuery_change before after s =
     (if isBrowser (environment s) \<and>
         matchMedia after PrefersColorScheme_dark \<noteq> matchMedia before PrefersColorScheme_dark
      then s\<lparr>html_classList :=
                updateColorScheme (matchMedia after PrefersColorScheme_dark) (html_classList s)\<rparr>
      else s)"

text \<open>The boolean streams, stepped one after the other.\<close>

definition next_streams :: "service \<Rightarrow> service" where
  "next_streams s =
     next_isLandscape (next_isPortrait (next_isDesktop (next_isTablet
       (next_isMobile (next_is2xl (next_isXl (next_isLg (next_isMd (next_isSm s)))))))))"

text \<open>
  One change notification, handled to completion: the environment changes, then every
  stream is stepped. Without a \<^verbatim>\<open>window\<close> there is nothing that could notify.
\<close>

definition notify :: "event \<Rightarrow> service \<Rightarrow> error + service" where
  "notify ev s =
     (case window (environment s) of
        None \<Rightarrow> Inr s
      | Some w \<Rightarrow>
          (let w' = apply_event ev w;
               s1 = s\<lparr>environment := (environment s)\<lparr>window := Some w'\<rparr>\<rparr>;
               s2 = next_streams s1
           in bind_result (next_currentBreakpoint s2) (\<lambda>s3.
                Inr (darkModeQuery_change w w' s3))))"

fun run :: "service \<Rightarrow> event list \<Rightarrow> error + service" where
  "run s [] = Inr s"
| "run s (ev # evs) = bind_result (notify ev s) (\<lambda>s'. run s' evs)"

section \<open>Example environments\<close>

definition browser_window :: "real \<Rightarrow> real \<Rightarrow> bool \<Rightarrow> string \<Rightarrow> Window" where
  "browser_window width height dark ua =
     \<lparr> viewportWidth = width, viewportHeight = height, prefersColorSchemeDark = dark,
       userAgent = ua, ontouchstart = False, maxTouchPoints = 0 \<rparr>"

definition in_browser :: "Window \<Rightarrow> env" where
  "in_browser w = \<lparr> isBrowser = True, cdkPlatform_isBrowser = True, window = Some w \<rparr>"

definition on_server :: env where
  "on_server = \<lparr> isBrowser = False, cdkPlatform_isBrowser = False, window = None \<rparr>"

text \<open>
  User agents: Safari on an iPhone, Edge on Windows, a made-up Darwin client, and curl.
\<close>

definition iphone_userAgent :: string where
  "iphone_userAgent =
     ''Mozilla/5.0 (iPhone; CPU iPhone OS 17_0 like Mac OS X) AppleWebKit/605.1.15 (KHTML, like Gecko) Version/17.0 Mobile/15E148 Safari/604.1''"

definition edge_userAgent :: string where
  "edge_userAgent =
     ''Mozilla/5.0 (Windows NT 10.0; Win64; x64) AppleWebKit/537.36 (KHTML, like Gecko) Chrome/120.0.0.0 Safari/537.36 Edg/120.0.0.0''"

definition darwin_userAgent :: string where
  "darwin_userAgent = ''curl-like/1.0 (Darwin 23.1.0; Macintosh; Linux; Android; iPhone)''"

definition curl_userAgent :: string where
  "curl_userAgent = ''curl/8.4.0''"

section \<open>The specification's own wording\<close>

text \<open>
  The data model derives \<^verbatim>\<open>browser\<close> by precedence: the first of the patterns for edge,
  chrome, firefox and safari that occurs in the lower-cased identifier string, and
  \<^verbatim>\<open>other\<close> when none occurs.
\<close>

definition browser_by_precedence :: "string \<Rightarrow> Browser" where
  "browser_by_precedence ua =
     (case filter (\<lambda>(pattern, b). includes_str (toLowerCase ua) pattern)
             [(''edg/'', Edge), (''chrome'', Chrome), (''firefox'', Firefox), (''safari'', Safari)] of
        [] \<Rightarrow> OtherBrowser
      | (pattern, b) # rest \<Rightarrow> b)"

text \<open>
  The breakpoint by the specification's bands, and by its algorithm: the thresholds are
  tested from the largest to the smallest and the first that matches wins.
\<close>

definition breakpoint_of_width :: "real \<Rightarrow> TailwindBreakpoint" where
  "breakpoint_of_width width =
     (if 1536 \<le> width then BP_2xl
      else if 1280 \<le> width then BP_xl
      else if 1024 \<le> width then BP_lg
      else if 768 \<le> width then BP_md
      else if 640 \<le> width then BP_sm
      else BP_xs)"

definition first_matching_threshold :: "real \<Rightarrow> TailwindBreakpoint" where
  "first_matching_threshold width =
     (case filter (\<lambda>(threshold, bp). threshold \<le> width)
             [(1536, BP_2xl), (1280, BP_xl), (1024, BP_lg), (768, BP_md), (640, BP_sm)] of
        [] \<Rightarrow> BP_xs
      | (threshold, bp) # rest \<Rightarrow> bp)"

section \<open>Names and predicates used in the statements\<close>

text \<open>
  The class names each group of subscribers writes: the six breakpoint classes (the list
  \<^verbatim>\<open>classList.remove\<close> is called with), the device and orientation classes, and the two
  colour-scheme classes. Together they are the classes that change after construction.
\<close>

definition bp_class_names :: "string list" where
  "bp_class_names = [''bp-xs'', ''bp-sm'', ''bp-md'', ''bp-lg'', ''bp-xl'', ''bp-2xl'']"

definition device_class_names :: "string list" where
  "device_class_names =
     [''mobile'', ''tablet'', ''desktop'', ''orientation-portrait'', ''orientation-landscape'']"

definition scheme_class_names :: "string list" where
  "scheme_class_names = [''prefers-dark'', ''prefers-light'']"

definition reactive_class_names :: "string list" where
  "reactive_class_names = device_class_names @ bp_class_names @ scheme_class_names"

text \<open>
  The classes applied once: the three detected names by prefix, and the two touch classes.
\<close>

definition static_class :: "string \<Rightarrow> bool" where
  "static_class c =
     (startsWith c ''platform-'' \<or> startsWith c ''browser-'' \<or> startsWith c ''os-'' \<or>
      c = ''touch-enabled'' \<or> c = ''touch-disabled'')"

text \<open>
  Whether a class is on the root element once \<^const>\<open>applyClassesToHtml\<close> has run on the
  service \<open>s\<close> in a browser with window \<open>w\<close>. The later writes of \<^const>\<open>applyClassesToHtml\<close>
  come first.
\<close>

definition class_after_apply :: "service \<Rightarrow> Window \<Rightarrow> string \<Rightarrow> bool" where
  "class_after_apply s w c =
     (if c = ''prefers-dark'' then prefersColorSchemeDark w
      else if c = ''prefers-light'' then \<not> prefersColorSchemeDark w
      else if c = ''touch-enabled'' then ontouchstart w \<or> 0 < maxTouchPoints w
      else if c = ''touch-disabled'' then \<not> (ontouchstart w \<or> 0 < maxTouchPoints w)
      else if c = ''orientation-portrait'' then sig_isPortrait s
      else if c = ''orientation-landscape'' then \<not> sig_isPortrait s
      else if c = ''desktop'' then sig_isDesktop s
      else if c = ''tablet'' then sig_isTablet s
      else if c = ''mobile'' then sig_isMobile s
      else if c \<in> set bp_class_names then c = ''bp-'' @ bp_name (sig_currentBreakpoint s)
      else c = ''platform-'' @ platform_name (detectPlatform (environment s)) \<or>
           c = ''browser-'' @ browser_name (browser_by_precedence (userAgent w)) \<or>
           (\<exists>os'. detectOS (environment s) = Inr os' \<and> c = ''os-'' @ os_name os') \<or>
           c \<in> html_classList s)"

text \<open>Every signal holds the current value of what it observes.\<close>

definition signals_current :: "service \<Rightarrow> bool" where
  "signals_current s =
     (sig_isSm s = isMatched (environment s) TAILWIND_BREAKPOINTS_sm \<and>
      sig_isMd s = isMatched (environment s) TAILWIND_BREAKPOINTS_md \<and>
      sig_isLg s = isMatched (environment s) TAILWIND_BREAKPOINTS_lg \<and>
      sig_isXl s = isMatched (environment s) TAILWIND_BREAKPOINTS_xl \<and>
      sig_is2xl s = isMatched (environment s) TAILWIND_BREAKPOINTS_2xl \<and>
      sig_isMobile s = isMatched (environment s) isMobile_query \<and>
      sig_isTablet s = isMatched (environment s) isTablet_query \<and>
      sig_isDesktop s = isMatched (environment s) isDesktop_query \<and>
      sig_isPortrait s = isMatched (environment s) Orientation_portrait \<and>
      sig_isLandscape s = isMatched (environment s) Orientation_landscape \<and>
      sig_currentBreakpoint s = currentBreakpoint_value (environment s))"

text \<open>
  The agreement between the breakpoint of a snapshot and its device fields, and the
  property that the latest snapshot is the one of the current breakpoint.
\<close>

definition snapshot_agrees :: "ResponsiveState \<Rightarrow> bool" where
  "snapshot_agrees st =
     ((breakpoint st \<in> {BP_lg, BP_xl, BP_2xl} \<longleftrightarrow> isDesktop st) \<and>
      (breakpoint st = BP_md \<longleftrightarrow> isTablet st) \<and>
      (breakpoint st \<in> {BP_xs, BP_sm} \<longleftrightarrow> isMobile st) \<and>
      platform st = (if isDesktop st then Desktop else if isTablet st then Tablet else Mobile))"

definition snapshot_current :: "service \<Rightarrow> bool" where
  "snapshot_current s =
     (case sig_state s of
        None \<Rightarrow> False
      | Some st \<Rightarrow>
          snapshot_agrees st \<and>
          breakpoint st = sig_currentBreakpoint s \<and>
          platform st = detectPlatform (environment s) \<and>
          sig_currentBreakpoint s = currentBreakpoint_value (environment s))"

text \<open>
  What the subscribers maintain on the root element: the device and orientation classes
  follow their signals, exactly the class of the current breakpoint is present, and the
  colour-scheme classes follow the system preference.
\<close>

definition device_classes_current :: "service \<Rightarrow> bool" where
  "device_classes_current s =
     ((''mobile'' \<in> html_classList s \<longleftrightarrow> sig_isMobile s) \<and>
      (''tablet'' \<in> html_classList s \<longleftrightarrow> sig_isTablet s) \<and>
      (''desktop'' \<in> html_classList s \<longleftrightarrow> sig_isDesktop s) \<and>
      (''orientation-portrait'' \<in> html_classList s \<longleftrightarrow> sig_isPortrait s) \<and>
      (''orientation-landscape'' \<in> html_classList s \<longleftrightarrow> \<not> sig_isPortrait s))"

definition bp_classes_current :: "service \<Rightarrow> bool" where
  "bp_classes_current s =
     (\<forall>bp. ''bp-'' @ bp_name bp \<in> html_classList s \<longleftrightarrow> bp = sig_currentBreakpoint s)"

definition scheme_classes_current :: "Window \<Rightarrow> service \<Rightarrow> bool" where
  "scheme_classes_current w s =
     ((''prefers-dark'' \<in> html_classList s \<longleftrightarrow> prefersColorSchemeDark w) \<and>
      (''prefers-light'' \<in> html_classList s \<longleftrightarrow> \<not> prefersColorSchemeDark w))"

definition classes_current :: "service \<Rightarrow> bool" where
  "classes_current s =
     (isBrowser (environment s) \<and> cdkPlatform_isBrowser (environment s) \<and>
      signals_current s \<and> device_classes_current s \<and> bp_classes_current s \<and>
      (case window (environment s) of
         None \<Rightarrow> False
       | Some w \<Rightarrow> scheme_classes_current w s))"

section \<open>Facts about the observer and the detection functions\<close>

lemmas TAILWIND_BREAKPOINTS_defs =
  TAILWIND_BREAKPOINTS_sm_def TAILWIND_BREAKPOINTS_md_def TAILWIND_BREAKPOINTS_lg_def
  TAILWIND_BREAKPOINTS_xl_def TAILWIND_BREAKPOINTS_2xl_def

lemma observe_isMatched: "observe e q = isMatched e q"
  by (simp add: observe_def breakpointObserver_observe_def)

lemma isMatched_window:
  "window e = Some w \<Longrightarrow> isMatched e q = (cdkPlatform_isBrowser e \<and> matchMedia w q)"
  by (simp add: isMatched_def)

lemma isMatched_no_window: "window e = None \<Longrightarrow> isMatched e q = False"
  by (simp add: isMatched_def)

lemma currentBreakpoint_value_isMatched:
  "currentBreakpoint_value e =
     (if isMatched e TAILWIND_BREAKPOINTS_2xl then BP_2xl
      else if isMatched e TAILWIND_BREAKPOINTS_xl then BP_xl
      else if isMatched e TAILWIND_BREAKPOINTS_lg then BP_lg
      else if isMatched e TAILWIND_BREAKPOINTS_md then BP_md
      else if isMatched e TAILWIND_BREAKPOINTS_sm then BP_sm
      else BP_xs)"
  by (simp add: currentBreakpoint_value_def currentBreakpoint_map_def
      breakpointObserver_observe_def truthy_def TAILWIND_BREAKPOINTS_defs)

lemma currentBreakpoint_value_browser:
  "cdkPlatform_isBrowser e \<Longrightarrow> window e = Some w \<Longrightarrow>
     currentBreakpoint_value e = breakpoint_of_width (viewportWidth w)"
  by (simp add: currentBreakpoint_value_isMatched isMatched_window breakpoint_of_width_def
      TAILWIND_BREAKPOINTS_defs)

lemma currentBreakpoint_value_no_window:
  "window e = None \<Longrightarrow> currentBreakpoint_value e = BP_xs"
  by (simp add: currentBreakpoint_value_isMatched isMatched_no_window)

lemma first_matching_threshold_bands:
  "first_matching_threshold width = breakpoint_of_width width"
  by (simp add: first_matching_threshold_def breakpoint_of_width_def)

text \<open>The breakpoint decides the md and lg matches, whatever the environment.\<close>

lemma md_by_breakpoint:
  "isMatched e TAILWIND_BREAKPOINTS_md \<longleftrightarrow>
     currentBreakpoint_value e \<in> {BP_md, BP_lg, BP_xl, BP_2xl}"
  by (cases "window e")
     (auto simp: currentBreakpoint_value_isMatched isMatched_def TAILWIND_BREAKPOINTS_defs)

lemma lg_by_breakpoint:
  "isMatched e TAILWIND_BREAKPOINTS_lg \<longleftrightarrow>
     currentBreakpoint_value e \<in> {BP_lg, BP_xl, BP_2xl}"
  by (cases "window e")
     (auto simp: currentBreakpoint_value_isMatched isMatched_def TAILWIND_BREAKPOINTS_defs)

lemma detectPlatform_by_breakpoint:
  "detectPlatform e =
     (if currentBreakpoint_value e \<in> {BP_lg, BP_xl, BP_2xl} then Desktop
      else if currentBreakpoint_value e = BP_md then Tablet
      else Mobile)"
  unfolding detectPlatform_def checkMatch_def md_by_breakpoint lg_by_breakpoint
  by auto

lemma detectBrowser_in_browser:
  "cdkPlatform_isBrowser e \<Longrightarrow> window e = Some w \<Longrightarrow>
     detectBrowser e = Inr (browser_by_precedence (userAgent w))"
  by (simp add: detectBrowser_def browser_by_precedence_def Let_def)

lemma detectBrowser_total: "browser_env e \<Longrightarrow> \<exists>b. detectBrowser e = Inr b"
  by (auto simp: browser_env_def detectBrowser_in_browser)

lemma detectOS_total: "browser_env e \<Longrightarrow> \<exists>b. detectOS e = Inr b"
  by (auto simp: browser_env_def detectOS_def Let_def)

text \<open>
  What does hold of a user agent that contains \<^verbatim>\<open>iphone\<close>: the result is never
  \<^verbatim>\<open>other\<close>, and it is \<^verbatim>\<open>ios\<close> exactly when none of \<^verbatim>\<open>win\<close>, \<^verbatim>\<open>mac\<close> and \<^verbatim>\<open>linux\<close> occurs.
\<close>

lemma detectOS_iphone:
  assumes "cdkPlatform_isBrowser e" and "window e = Some w"
    and "includes_str (toLowerCase (userAgent w)) ''iphone''"
  shows "detectOS e =
           Inr (if includes_str (toLowerCase (userAgent w)) ''win'' then Windows
                else if includes_str (toLowerCase (userAgent w)) ''mac'' then MacOS
                else if includes_str (toLowerCase (userAgent w)) ''linux'' then Linux
                else IOS)"
  using assms by (simp add: detectOS_def Let_def)

lemma detectTouch_in_browser:
  "cdkPlatform_isBrowser e \<Longrightarrow> window e = Some w \<Longrightarrow>
     detectTouch e = Inr (ontouchstart w \<or> 0 < maxTouchPoints w)"
  by (simp add: detectTouch_def)

lemma state_map_fields:
  assumes "state_map e bp = Inr st"
  shows "breakpoint st = bp"
    and "isMobile st = (\<not> isMatched e TAILWIND_BREAKPOINTS_md)"
    and "isTablet st =
           (isMatched e TAILWIND_BREAKPOINTS_md \<and> \<not> isMatched e TAILWIND_BREAKPOINTS_lg)"
    and "isDesktop st = isMatched e TAILWIND_BREAKPOINTS_lg"
    and "platform st =
           (if isMatched e TAILWIND_BREAKPOINTS_lg then Desktop
            else if isMatched e TAILWIND_BREAKPOINTS_md then Tablet else Mobile)"
  using assms
  by (auto simp: state_map_def bind_result_def Let_def checkMatch_def split: sum.splits)

lemma state_map_in_browser:
  assumes "browser_env e"
  shows "\<exists>st. state_map e bp = Inr st"
proof -
  from assms obtain w where w: "window e = Some w" and b: "isBrowser e" "cdkPlatform_isBrowser e"
    by (auto simp: browser_env_def)
  from assms obtain br where br: "detectBrowser e = Inr br"
    using detectBrowser_total by blast
  from assms obtain os' where os': "detectOS e = Inr os'"
    using detectOS_total by blast
  show ?thesis
    by (simp add: state_map_def bind_result_def Let_def and_also_def detectTouch_in_browser
        getPrefersDark_def w b br os')
qed

lemma state_map_prefersDark:
  assumes "isBrowser e" "window e = Some w" "state_map e bp = Inr st"
  shows "prefersDark st = prefersColorSchemeDark w"
  using assms
  by (auto simp: state_map_def bind_result_def Let_def and_also_def getPrefersDark_def
      split: sum.splits)

lemma state_map_on_server:
  assumes "server_env e"
  shows "state_map e bp =
     Inr \<lparr> breakpoint = bp, isMobile = True, isTablet = False, isDesktop = False,
           isPortrait = False, isLandscape = False, isTouchEnabled = False,
           platform = Mobile, browser = OtherBrowser, os = OtherOS, prefersDark = False \<rparr>"
  using assms
  by (simp add: server_env_def state_map_def bind_result_def Let_def checkMatch_def isMatched_def
      and_also_def detectTouch_def detectBrowser_def detectOS_def getPrefersDark_def)

section \<open>Facts about the streams\<close>

text \<open>
  Each stream function leaves the signal at the current value of its query: when the value
  does not pass \<^const>\<open>distinctUntilChanged\<close>, it is the value the signal already has.
\<close>

lemma next_isSm_eq:
  "next_isSm s = s\<lparr>sig_isSm := isMatched (environment s) TAILWIND_BREAKPOINTS_sm\<rparr>"
  by (simp add: next_isSm_def Let_def distinctUntilChanged_def observe_isMatched)

lemma next_isMd_eq:
  "next_isMd s = s\<lparr>sig_isMd := isMatched (environment s) TAILWIND_BREAKPOINTS_md\<rparr>"
  by (simp add: next_isMd_def Let_def distinctUntilChanged_def observe_isMatched)

lemma next_isLg_eq:
  "next_isLg s = s\<lparr>sig_isLg := isMatched (environment s) TAILWIND_BREAKPOINTS_lg\<rparr>"
  by (simp add: next_isLg_def Let_def distinctUntilChanged_def observe_isMatched)

lemma next_isXl_eq:
  "next_isXl s = s\<lparr>sig_isXl := isMatched (environment s) TAILWIND_BREAKPOINTS_xl\<rparr>"
  by (simp add: next_isXl_def Let_def distinctUntilChanged_def observe_isMatched)

lemma next_is2xl_eq:
  "next_is2xl s = s\<lparr>sig_is2xl := isMatched (environment s) TAILWIND_BREAKPOINTS_2xl\<rparr>"
  by (simp add: next_is2xl_def Let_def distinctUntilChanged_def observe_isMatched)

lemma next_isLandscape_eq:
  "next_isLandscape s = s\<lparr>sig_isLandscape := isMatched (environment s) Orientation_landscape\<rparr>"
  by (simp add: next_isLandscape_def Let_def distinctUntilChanged_def observe_isMatched)

lemma next_isMobile_eq:
  "next_isMobile s =
     s\<lparr>sig_isMobile := isMatched (environment s) isMobile_query,
       html_classList :=
         (if isBrowser (environment s) \<and> isMatched (environment s) isMobile_query \<noteq> sig_isMobile s
          then classList_toggle ''mobile'' (isMatched (environment s) isMobile_query) (html_classList s)
          else html_classList s)\<rparr>"
  by (simp add: next_isMobile_def Let_def distinctUntilChanged_def observe_isMatched)

lemma next_isTablet_eq:
  "next_isTablet s =
     s\<lparr>sig_isTablet := isMatched (environment s) isTablet_query,
       html_classList :=
         (if isBrowser (environment s) \<and> isMatched (environment s) isTablet_query \<noteq> sig_isTablet s
          then classList_toggle ''tablet'' (isMatched (environment s) isTablet_query) (html_classList s)
          else html_classList s)\<rparr>"
  by (simp add: next_isTablet_def Let_def distinctUntilChanged_def observe_isMatched)

lemma next_isDesktop_eq:
  "next_isDesktop s =
     s\<lparr>sig_isDesktop := isMatched (environment s) isDesktop_query,
       html_classList :=
         (if isBrowser (environment s) \<and> isMatched (environment s) isDesktop_query \<noteq> sig_isDesktop s
          then classList_toggle ''desktop'' (isMatched (environment s) isDesktop_query) (html_classList s)
          else html_classList s)\<rparr>"
  by (simp add: next_isDesktop_def Let_def distinctUntilChanged_def observe_isMatched)

lemma next_isPortrait_eq:
  "next_isPortrait s =
     s\<lparr>sig_isPortrait := isMatched (environment s) Orientation_portrait,
       html_classList :=
         (if isBrowser (environment s) \<and> isMatched (environment s) Orientation_portrait \<noteq> sig_isPortrait s
          then orientation_subscriber (isMatched (environment s) Orientation_portrait) (html_classList s)
          else html_classList s)\<rparr>"
  by (simp add: next_isPortrait_def Let_def distinctUntilChanged_def observe_isMatched)

lemmas next_stream_eqs =
  next_isSm_eq next_isMd_eq next_isLg_eq next_isXl_eq next_is2xl_eq next_isLandscape_eq
  next_isMobile_eq next_isTablet_eq next_isDesktop_eq next_isPortrait_eq

lemma next_streams_frame:
  "environment (next_streams s) = environment s"
  "sig_state (next_streams s) = sig_state s"
  "sig_currentBreakpoint (next_streams s) = sig_currentBreakpoint s"
  by (simp_all add: next_streams_def next_stream_eqs)

lemma next_streams_signals:
  "sig_isSm (next_streams s) = isMatched (environment s) TAILWIND_BREAKPOINTS_sm"
  "sig_isMd (next_streams s) = isMatched (environment s) TAILWIND_BREAKPOINTS_md"
  "sig_isLg (next_streams s) = isMatched (environment s) TAILWIND_BREAKPOINTS_lg"
  "sig_isXl (next_streams s) = isMatched (environment s) TAILWIND_BREAKPOINTS_xl"
  "sig_is2xl (next_streams s) = isMatched (environment s) TAILWIND_BREAKPOINTS_2xl"
  "sig_isMobile (next_streams s) = isMatched (environment s) isMobile_query"
  "sig_isTablet (next_streams s) = isMatched (environment s) isTablet_query"
  "sig_isDesktop (next_streams s) = isMatched (environment s) isDesktop_query"
  "sig_isPortrait (next_streams s) = isMatched (environment s) Orientation_portrait"
  "sig_isLandscape (next_streams s) = isMatched (environment s) Orientation_landscape"
  by (simp_all add: next_streams_def next_stream_eqs)

lemma notify_window:
  assumes "window (environment s) = Some w"
  shows "notify ev s =
           bind_result
             (next_currentBreakpoint
                (next_streams (s\<lparr>environment := (environment s)\<lparr>window := Some (apply_event ev w)\<rparr>\<rparr>)))
             (\<lambda>s3. Inr (darkModeQuery_change w (apply_event ev w) s3))"
  using assms by (simp add: notify_def Let_def)

lemma notify_no_window: "window (environment s) = None \<Longrightarrow> notify ev s = Inr s"
  by (simp add: notify_def)

lemma darkModeQuery_change_frame:
  "environment (darkModeQuery_change w w' s) = environment s"
  "sig_state (darkModeQuery_change w w' s) = sig_state s"
  "sig_currentBreakpoint (darkModeQuery_change w w' s) = sig_currentBreakpoint s"
  "sig_isSm (darkModeQuery_change w w' s) = sig_isSm s"
  "sig_isMd (darkModeQuery_change w w' s) = sig_isMd s"
  "sig_isLg (darkModeQuery_change w w' s) = sig_isLg s"
  "sig_isXl (darkModeQuery_change w w' s) = sig_isXl s"
  "sig_is2xl (darkModeQuery_change w w' s) = sig_is2xl s"
  "sig_isMobile (darkModeQuery_change w w' s) = sig_isMobile s"
  "sig_isTablet (darkModeQuery_change w w' s) = sig_isTablet s"
  "sig_isDesktop (darkModeQuery_change w w' s) = sig_isDesktop s"
  "sig_isPortrait (darkModeQuery_change w w' s) = sig_isPortrait s"
  "sig_isLandscape (darkModeQuery_change w w' s) = sig_isLandscape s"
  by (simp_all add: darkModeQuery_change_def)

lemma next_currentBreakpoint_frame:
  assumes "next_currentBreakpoint s = Inr s'"
  shows "environment s' = environment s"
    and "sig_currentBreakpoint s' = currentBreakpoint_value (environment s)"
    and "sig_isSm s' = sig_isSm s" and "sig_isMd s' = sig_isMd s" and "sig_isLg s' = sig_isLg s"
    and "sig_isXl s' = sig_isXl s" and "sig_is2xl s' = sig_is2xl s"
    and "sig_isMobile s' = sig_isMobile s" and "sig_isTablet s' = sig_isTablet s"
    and "sig_isDesktop s' = sig_isDesktop s" and "sig_isPortrait s' = sig_isPortrait s"
    and "sig_isLandscape s' = sig_isLandscape s"
  using assms
  by (auto simp: next_currentBreakpoint_def Let_def distinctUntilChanged_def bind_result_def
      split: if_splits sum.splits)

lemma next_currentBreakpoint_total:
  assumes "browser_env (environment s)"
  shows "\<exists>s'. next_currentBreakpoint s = Inr s'"
proof -
  obtain st where "state_map (environment s) (currentBreakpoint_value (environment s)) = Inr st"
    using state_map_in_browser [OF assms] by blast
  then show ?thesis
    by (simp add: next_currentBreakpoint_def Let_def bind_result_def)
qed

section \<open>Facts about the class list\<close>

lemma classList_add_iff: "c \<in> classList_add c' html \<longleftrightarrow> c = c' \<or> c \<in> html"
  by (auto simp: classList_add_def)

lemma classList_toggle_iff:
  "c \<in> classList_toggle c' force html \<longleftrightarrow> (if c = c' then force else c \<in> html)"
  by (auto simp: classList_toggle_def)

lemma classList_remove_iff: "c \<in> classList_remove cs html \<longleftrightarrow> c \<in> html \<and> c \<notin> set cs"
  by (auto simp: classList_remove_def)

lemma bp_class_in_names: "''bp-'' @ bp_name bp \<in> set bp_class_names"
  by (cases bp) (simp_all add: bp_class_names_def)

lemma bp_class_names_eq:
  "bp_class_names =
     map (\<lambda>bp. ''bp-'' @ bp_name bp) [BP_xs, BP_sm, BP_md, BP_lg, BP_xl, BP_2xl]"
  by (simp add: bp_class_names_def)

lemma bp_class_names_cases:
  "c \<in> set bp_class_names \<Longrightarrow> \<exists>bp. c = ''bp-'' @ bp_name bp"
proof -
  assume "c \<in> set bp_class_names"
  then have "c \<in> (\<lambda>bp. ''bp-'' @ bp_name bp) ` set [BP_xs, BP_sm, BP_md, BP_lg, BP_xl, BP_2xl]"
    by (simp only: bp_class_names_eq set_map)
  then show ?thesis by blast
qed

lemma bp_class_inj: "''bp-'' @ bp_name a = ''bp-'' @ bp_name b \<longleftrightarrow> a = b"
  by (cases a; cases b) simp_all

lemma breakpoint_subscriber_iff:
  "c \<in> breakpoint_subscriber bp html \<longleftrightarrow>
     (if c \<in> set bp_class_names then c = ''bp-'' @ bp_name bp else c \<in> html)"
  using bp_class_in_names [of bp]
  by (auto simp: breakpoint_subscriber_def classList_add_iff classList_remove_iff
      bp_class_names_def)

lemma orientation_subscriber_iff:
  "c \<in> orientation_subscriber match html \<longleftrightarrow>
     (if c = ''orientation-portrait'' then match
      else if c = ''orientation-landscape'' then \<not> match
      else c \<in> html)"
  by (simp add: orientation_subscriber_def classList_toggle_iff)

lemma updateColorScheme_iff:
  "c \<in> updateColorScheme e_matches html \<longleftrightarrow>
     (if c = ''prefers-dark'' then e_matches
      else if c = ''prefers-light'' then \<not> e_matches
      else c \<in> html)"
  by (simp add: updateColorScheme_def classList_toggle_iff)

lemma next_streams_classes:
  assumes "isBrowser (environment s)" and "device_classes_current s"
  shows "c \<in> html_classList (next_streams s) \<longleftrightarrow>
     (if c = ''mobile'' then isMatched (environment s) isMobile_query
      else if c = ''tablet'' then isMatched (environment s) isTablet_query
      else if c = ''desktop'' then isMatched (environment s) isDesktop_query
      else if c = ''orientation-portrait'' then isMatched (environment s) Orientation_portrait
      else if c = ''orientation-landscape'' then \<not> isMatched (environment s) Orientation_portrait
      else c \<in> html_classList s)"
  using assms
  by (auto simp: next_streams_def next_stream_eqs device_classes_current_def
      classList_toggle_iff orientation_subscriber_iff)

lemma bp_classes_current_names:
  assumes "bp_classes_current s" and "c \<in> set bp_class_names"
  shows "c \<in> html_classList s \<longleftrightarrow> c = ''bp-'' @ bp_name (sig_currentBreakpoint s)"
proof -
  from assms(2) obtain bp where c: "c = ''bp-'' @ bp_name bp"
    using bp_class_names_cases by blast
  from assms(1) have "''bp-'' @ bp_name bp \<in> html_classList s \<longleftrightarrow> bp = sig_currentBreakpoint s"
    unfolding bp_classes_current_def by blast
  then show ?thesis
    unfolding c bp_class_inj .
qed

lemma next_currentBreakpoint_classes:
  assumes "isBrowser (environment s)" and "bp_classes_current s"
    and "next_currentBreakpoint s = Inr s'"
  shows "c \<in> html_classList s' \<longleftrightarrow>
     (if c \<in> set bp_class_names then c = ''bp-'' @ bp_name (currentBreakpoint_value (environment s))
      else c \<in> html_classList s)"
proof (cases "currentBreakpoint_value (environment s) = sig_currentBreakpoint s")
  case True
  with assms(3) have "s' = s"
    by (simp add: next_currentBreakpoint_def Let_def distinctUntilChanged_def)
  then show ?thesis
    using True bp_classes_current_names [OF assms(2), of c] by simp
next
  case False
  obtain st where st: "state_map (environment s) (currentBreakpoint_value (environment s)) = Inr st"
    using assms(3) False
    by (cases "state_map (environment s) (currentBreakpoint_value (environment s))")
       (simp_all add: next_currentBreakpoint_def Let_def distinctUntilChanged_def bind_result_def)
  have "html_classList s' =
          breakpoint_subscriber (currentBreakpoint_value (environment s)) (html_classList s)"
    using assms(1,3) False st
    by (auto simp: next_currentBreakpoint_def Let_def distinctUntilChanged_def bind_result_def)
  then show ?thesis by (simp only: breakpoint_subscriber_iff)
qed

lemma darkModeQuery_change_classes:
  assumes "isBrowser (environment s)" and "scheme_classes_current w s"
  shows "c \<in> html_classList (darkModeQuery_change w w' s) \<longleftrightarrow>
     (if c = ''prefers-dark'' then prefersColorSchemeDark w'
      else if c = ''prefers-light'' then \<not> prefersColorSchemeDark w'
      else c \<in> html_classList s)"
  using assms
  by (auto simp: darkModeQuery_change_def scheme_classes_current_def updateColorScheme_iff)

section \<open>Construction and notification, characterised\<close>

lemma applyClassesToHtml_result:
  assumes "browser_env (environment s)" and "window (environment s) = Some w"
  shows "\<exists>html'. applyClassesToHtml s = Inr (s\<lparr>html_classList := html'\<rparr>) \<and>
                 (\<forall>c. c \<in> html' \<longleftrightarrow> class_after_apply s w c)"
proof -
  from assms have cdk: "cdkPlatform_isBrowser (environment s)"
    by (simp add: browser_env_def)
  obtain os' where os': "detectOS (environment s) = Inr os'"
    using detectOS_total [OF assms(1)] by blast
  have br: "detectBrowser (environment s) = Inr (browser_by_precedence (userAgent w))"
    using cdk assms(2) by (rule detectBrowser_in_browser)
  have touch: "detectTouch (environment s) = Inr (ontouchstart w \<or> 0 < maxTouchPoints w)"
    using cdk assms(2) by (rule detectTouch_in_browser)
  define html' where "html' =
    updateColorScheme (matchMedia w PrefersColorScheme_dark)
      (classList_toggle ''touch-disabled'' (\<not> (ontouchstart w \<or> 0 < maxTouchPoints w))
      (classList_toggle ''touch-enabled'' (ontouchstart w \<or> 0 < maxTouchPoints w)
      (classList_add (''os-'' @ os_name os')
      (classList_add (''browser-'' @ browser_name (browser_by_precedence (userAgent w)))
      (classList_add (''platform-'' @ platform_name (detectPlatform (environment s)))
      (orientation_subscriber (sig_isPortrait s)
      (classList_toggle ''desktop'' (sig_isDesktop s)
      (classList_toggle ''tablet'' (sig_isTablet s)
      (classList_toggle ''mobile'' (sig_isMobile s)
      (breakpoint_subscriber (sig_currentBreakpoint s) (html_classList s)))))))))))"
  have eq: "applyClassesToHtml s = Inr (s\<lparr>html_classList := html'\<rparr>)"
    by (simp add: applyClassesToHtml_def Let_def bind_result_def assms(2) os' br touch html'_def)
  have mem: "c \<in> html' \<longleftrightarrow> class_after_apply s w c" for c
    unfolding class_after_apply_def
    using os' assms(2)
    by (auto simp: html'_def updateColorScheme_iff classList_toggle_iff classList_add_iff
        orientation_subscriber_iff breakpoint_subscriber_iff bp_class_names_def)
  from eq mem show ?thesis by blast
qed

lemma applyClassesToHtml_total:
  assumes "browser_env (environment s)"
  shows "\<exists>s'. applyClassesToHtml s = Inr s'"
proof -
  from assms obtain w where "window (environment s) = Some w"
    by (auto simp: browser_env_def)
  from applyClassesToHtml_result [OF assms this] show ?thesis by blast
qed

lemma applyClassesToHtml_classes:
  assumes "browser_env (environment s)" and "window (environment s) = Some w"
    and "applyClassesToHtml s = Inr s'"
  shows "c \<in> html_classList s' \<longleftrightarrow> class_after_apply s w c"
proof -
  from applyClassesToHtml_result [OF assms(1,2)] obtain html' where
    eq: "applyClassesToHtml s = Inr (s\<lparr>html_classList := html'\<rparr>)"
    and m: "\<forall>c. c \<in> html' \<longleftrightarrow> class_after_apply s w c"
    by blast
  from eq assms(3) have "s' = s\<lparr>html_classList := html'\<rparr>"
    by (simp only: sum.inject)
  then have "html_classList s' = html'" by simp
  with m show ?thesis by simp
qed

section \<open>What stays true of every service state\<close>

lemma state_map_agrees:
  assumes "state_map e (currentBreakpoint_value e) = Inr st"
  shows "snapshot_agrees st" and "platform st = detectPlatform e"
    and "breakpoint st = currentBreakpoint_value e"
proof -
  note f = state_map_fields [OF assms]
  show "breakpoint st = currentBreakpoint_value e" by (rule f(1))
  show "platform st = detectPlatform e"
    by (simp add: f(5) detectPlatform_def checkMatch_def)
  show "snapshot_agrees st"
    unfolding snapshot_agrees_def f md_by_breakpoint lg_by_breakpoint
    by (cases "currentBreakpoint_value e") simp_all
qed

lemma applyClassesToHtml_frame:
  assumes "applyClassesToHtml s = Inr s'"
  shows "\<exists>html'. s' = s\<lparr>html_classList := html'\<rparr>"
  using assms
  by (auto simp: applyClassesToHtml_def Let_def bind_result_def split: option.splits sum.splits)

lemma construct_fields:
  assumes "construct e html = Inr s"
  shows "environment s = e"
    and "sig_currentBreakpoint s = currentBreakpoint_value e"
    and "\<exists>st. state_map e (currentBreakpoint_value e) = Inr st \<and> sig_state s = Some st"
    and "sig_isSm s = isMatched e TAILWIND_BREAKPOINTS_sm"
    and "sig_isMd s = isMatched e TAILWIND_BREAKPOINTS_md"
    and "sig_isLg s = isMatched e TAILWIND_BREAKPOINTS_lg"
    and "sig_isXl s = isMatched e TAILWIND_BREAKPOINTS_xl"
    and "sig_is2xl s = isMatched e TAILWIND_BREAKPOINTS_2xl"
    and "sig_isMobile s = isMatched e isMobile_query"
    and "sig_isTablet s = isMatched e isTablet_query"
    and "sig_isDesktop s = isMatched e isDesktop_query"
    and "sig_isPortrait s = isMatched e Orientation_portrait"
    and "sig_isLandscape s = isMatched e Orientation_landscape"
proof -
  from assms obtain st where st: "state_map e (currentBreakpoint_value e) = Inr st"
    by (cases "state_map e (currentBreakpoint_value e)")
       (simp_all add: construct_def Let_def bind_result_def)
  define s0 where "s0 =
    \<lparr> environment = e, html_classList = html,
      sig_isSm = observe e TAILWIND_BREAKPOINTS_sm,
      sig_isMd = observe e TAILWIND_BREAKPOINTS_md,
      sig_isLg = observe e TAILWIND_BREAKPOINTS_lg,
      sig_isXl = observe e TAILWIND_BREAKPOINTS_xl,
      sig_is2xl = observe e TAILWIND_BREAKPOINTS_2xl,
      sig_isMobile = observe e isMobile_query,
      sig_isTablet = observe e isTablet_query,
      sig_isDesktop = observe e isDesktop_query,
      sig_isPortrait = observe e Orientation_portrait,
      sig_isLandscape = observe e Orientation_landscape,
      sig_currentBreakpoint = currentBreakpoint_value e,
      sig_state = Some st \<rparr>"
  have c: "construct e html = (if isBrowser e then applyClassesToHtml s0 else Inr s0)"
    by (simp add: construct_def Let_def bind_result_def st s0_def)
  have "\<exists>html'. s = s0\<lparr>html_classList := html'\<rparr>"
  proof (cases "isBrowser e")
    case True
    with c assms show ?thesis by (simp add: applyClassesToHtml_frame)
  next
    case False
    with c assms have "s = s0" by simp
    then have "s = s0\<lparr>html_classList := html_classList s0\<rparr>" by simp
    then show ?thesis by blast
  qed
  then obtain html' where s: "s = s0\<lparr>html_classList := html'\<rparr>" by blast
  show "environment s = e" by (simp add: s s0_def)
  show "sig_currentBreakpoint s = currentBreakpoint_value e" by (simp add: s s0_def)
  show "\<exists>st. state_map e (currentBreakpoint_value e) = Inr st \<and> sig_state s = Some st"
    by (simp add: s s0_def st)
  show "sig_isSm s = isMatched e TAILWIND_BREAKPOINTS_sm" by (simp add: s s0_def observe_isMatched)
  show "sig_isMd s = isMatched e TAILWIND_BREAKPOINTS_md" by (simp add: s s0_def observe_isMatched)
  show "sig_isLg s = isMatched e TAILWIND_BREAKPOINTS_lg" by (simp add: s s0_def observe_isMatched)
  show "sig_isXl s = isMatched e TAILWIND_BREAKPOINTS_xl" by (simp add: s s0_def observe_isMatched)
  show "sig_is2xl s = isMatched e TAILWIND_BREAKPOINTS_2xl" by (simp add: s s0_def observe_isMatched)
  show "sig_isMobile s = isMatched e isMobile_query" by (simp add: s s0_def observe_isMatched)
  show "sig_isTablet s = isMatched e isTablet_query" by (simp add: s s0_def observe_isMatched)
  show "sig_isDesktop s = isMatched e isDesktop_query" by (simp add: s s0_def observe_isMatched)
  show "sig_isPortrait s = isMatched e Orientation_portrait" by (simp add: s s0_def observe_isMatched)
  show "sig_isLandscape s = isMatched e Orientation_landscape" by (simp add: s s0_def observe_isMatched)
qed

lemma construct_snapshot_current:
  assumes "construct e html = Inr s"
  shows "snapshot_current s"
proof -
  note f = construct_fields [OF assms]
  from f(3) obtain st where st: "state_map e (currentBreakpoint_value e) = Inr st"
    and ss: "sig_state s = Some st" by blast
  show ?thesis
    using state_map_agrees [OF st] by (simp add: snapshot_current_def ss f(1,2))
qed

lemma next_currentBreakpoint_snapshot:
  assumes "next_currentBreakpoint t = Inr s'"
    and "sig_state t = Some st" and "snapshot_agrees st" and "breakpoint st = sig_currentBreakpoint t"
  shows "snapshot_current s'"
proof (cases "currentBreakpoint_value (environment t) = sig_currentBreakpoint t")
  case True
  with assms(1) have s': "s' = t"
    by (simp add: next_currentBreakpoint_def Let_def distinctUntilChanged_def)
  have "platform st = detectPlatform (environment t)"
    using assms(3,4) True
    unfolding snapshot_agrees_def detectPlatform_by_breakpoint
    by (cases "sig_currentBreakpoint t") auto
  then show ?thesis
    using assms(2-4) True by (simp add: snapshot_current_def s')
next
  case False
  obtain st' where st': "state_map (environment t) (currentBreakpoint_value (environment t)) = Inr st'"
    using assms(1) False
    by (cases "state_map (environment t) (currentBreakpoint_value (environment t))")
       (simp_all add: next_currentBreakpoint_def Let_def distinctUntilChanged_def bind_result_def)
  have "sig_state s' = Some st'" "sig_currentBreakpoint s' = currentBreakpoint_value (environment t)"
    "environment s' = environment t"
    using assms(1) False st'
    by (auto simp: next_currentBreakpoint_def Let_def distinctUntilChanged_def bind_result_def)
  then show ?thesis
    using state_map_agrees [OF st'] by (simp add: snapshot_current_def)
qed

lemma construct_signals_current: "construct e html = Inr s \<Longrightarrow> signals_current s"
  using construct_fields [of e html s] by (simp add: signals_current_def)

text \<open>A notification, taken apart into its three stages.\<close>

lemma notify_stages:
  assumes "window (environment s) = Some w" and "notify ev s = Inr s'"
  obtains t s3 where
    "t = next_streams (s\<lparr>environment := (environment s)\<lparr>window := Some (apply_event ev w)\<rparr>\<rparr>)"
    and "next_currentBreakpoint t = Inr s3"
    and "s' = darkModeQuery_change w (apply_event ev w) s3"
proof -
  define t where
    "t = next_streams (s\<lparr>environment := (environment s)\<lparr>window := Some (apply_event ev w)\<rparr>\<rparr>)"
  from assms obtain s3 where "next_currentBreakpoint t = Inr s3"
    and "s' = darkModeQuery_change w (apply_event ev w) s3"
    by (cases "next_currentBreakpoint t") (auto simp: notify_window bind_result_def t_def)
  with t_def that show thesis by blast
qed

lemma notify_environment:
  assumes "window (environment s) = Some w" and "notify ev s = Inr s'"
  shows "environment s' = (environment s)\<lparr>window := Some (apply_event ev w)\<rparr>"
proof -
  from assms obtain t s3 where
    t: "t = next_streams (s\<lparr>environment := (environment s)\<lparr>window := Some (apply_event ev w)\<rparr>\<rparr>)"
    and s3: "next_currentBreakpoint t = Inr s3"
    and s': "s' = darkModeQuery_change w (apply_event ev w) s3"
    by (rule notify_stages)
  show ?thesis
    by (simp add: s' darkModeQuery_change_frame next_currentBreakpoint_frame [OF s3] t
        next_streams_frame)
qed

lemma notify_signals_current:
  assumes "signals_current s" and "notify ev s = Inr s'"
  shows "signals_current s'"
proof (cases "window (environment s)")
  case None
  with assms show ?thesis by (simp add: notify_no_window)
next
  case (Some w)
  from Some assms(2) obtain t s3 where
    t: "t = next_streams (s\<lparr>environment := (environment s)\<lparr>window := Some (apply_event ev w)\<rparr>\<rparr>)"
    and s3: "next_currentBreakpoint t = Inr s3"
    and s': "s' = darkModeQuery_change w (apply_event ev w) s3"
    by (rule notify_stages)
  show ?thesis
    unfolding signals_current_def s' darkModeQuery_change_frame next_currentBreakpoint_frame [OF s3]
    by (simp add: t next_streams_frame next_streams_signals)
qed

lemma notify_snapshot_current:
  assumes "snapshot_current s" and "notify ev s = Inr s'"
  shows "snapshot_current s'"
proof (cases "window (environment s)")
  case None
  with assms show ?thesis by (simp add: notify_no_window)
next
  case (Some w)
  from Some assms(2) obtain t s3 where
    t: "t = next_streams (s\<lparr>environment := (environment s)\<lparr>window := Some (apply_event ev w)\<rparr>\<rparr>)"
    and s3: "next_currentBreakpoint t = Inr s3"
    and s': "s' = darkModeQuery_change w (apply_event ev w) s3"
    by (rule notify_stages)
  from assms(1) obtain st where st: "sig_state s = Some st" "snapshot_agrees st"
    "breakpoint st = sig_currentBreakpoint s"
    by (auto simp: snapshot_current_def split: option.splits)
  have "sig_state t = Some st" "breakpoint st = sig_currentBreakpoint t"
    using st by (simp_all add: t next_streams_frame)
  then have "snapshot_current s3"
    using next_currentBreakpoint_snapshot [OF s3] st(2) by blast
  then show ?thesis
    by (simp add: snapshot_current_def s' darkModeQuery_change_frame cong: option.case_cong)
qed

lemma run_signals_current:
  "signals_current s \<Longrightarrow> run s evs = Inr s' \<Longrightarrow> signals_current s'"
proof (induction evs arbitrary: s)
  case Nil
  then show ?case by simp
next
  case (Cons ev evs)
  from Cons.prems(2) obtain s1 where "notify ev s = Inr s1" and "run s1 evs = Inr s'"
    by (cases "notify ev s") (simp_all add: bind_result_def)
  with Cons.IH Cons.prems(1) show ?case
    using notify_signals_current by blast
qed

lemma run_snapshot_current:
  "snapshot_current s \<Longrightarrow> run s evs = Inr s' \<Longrightarrow> snapshot_current s'"
proof (induction evs arbitrary: s)
  case Nil
  then show ?case by simp
next
  case (Cons ev evs)
  from Cons.prems(2) obtain s1 where "notify ev s = Inr s1" and "run s1 evs = Inr s'"
    by (cases "notify ev s") (simp_all add: bind_result_def)
  with Cons.IH Cons.prems(1) show ?case
    using notify_snapshot_current by blast
qed

section \<open>Construction and notification succeed\<close>

lemma construct_on_server:
  assumes "server_env e"
  shows "construct e html =
     Inr \<lparr> environment = e, html_classList = html,
           sig_isSm = False, sig_isMd = False, sig_isLg = False, sig_isXl = False,
           sig_is2xl = False, sig_isMobile = False, sig_isTablet = False, sig_isDesktop = False,
           sig_isPortrait = False, sig_isLandscape = False,
           sig_currentBreakpoint = BP_xs,
           sig_state = Some \<lparr> breakpoint = BP_xs, isMobile = True, isTablet = False,
                               isDesktop = False, isPortrait = False, isLandscape = False,
                               isTouchEnabled = False, platform = Mobile,
                               browser = OtherBrowser, os = OtherOS, prefersDark = False \<rparr> \<rparr>"
proof -
  from assms have w: "window e = None" and b: "\<not> isBrowser e"
    by (simp_all add: server_env_def)
  show ?thesis
    by (simp add: construct_def Let_def bind_result_def state_map_on_server [OF assms] b
        observe_isMatched isMatched_no_window [OF w] currentBreakpoint_value_no_window [OF w])
qed

lemma run_no_window: "window (environment s) = None \<Longrightarrow> run s evs = Inr s"
  by (induction evs) (simp_all add: notify_no_window bind_result_def)

lemma construct_in_browser:
  assumes "browser_env e"
  shows "\<exists>s. construct e html = Inr s"
proof -
  from assms obtain w where w: "window e = Some w" and b: "isBrowser e"
    by (auto simp: browser_env_def)
  obtain st where st: "state_map e (currentBreakpoint_value e) = Inr st"
    using state_map_in_browser [OF assms] by blast
  define s0 where "s0 =
    \<lparr> environment = e, html_classList = html,
      sig_isSm = observe e TAILWIND_BREAKPOINTS_sm,
      sig_isMd = observe e TAILWIND_BREAKPOINTS_md,
      sig_isLg = observe e TAILWIND_BREAKPOINTS_lg,
      sig_isXl = observe e TAILWIND_BREAKPOINTS_xl,
      sig_is2xl = observe e TAILWIND_BREAKPOINTS_2xl,
      sig_isMobile = observe e isMobile_query,
      sig_isTablet = observe e isTablet_query,
      sig_isDesktop = observe e isDesktop_query,
      sig_isPortrait = observe e Orientation_portrait,
      sig_isLandscape = observe e Orientation_landscape,
      sig_currentBreakpoint = currentBreakpoint_value e,
      sig_state = Some st \<rparr>"
  have "construct e html = applyClassesToHtml s0"
    by (simp add: construct_def Let_def bind_result_def st s0_def b)
  moreover have "\<exists>s. applyClassesToHtml s0 = Inr s"
    using assms by (intro applyClassesToHtml_total) (simp add: s0_def)
  ultimately show ?thesis by simp
qed

lemma notify_in_browser:
  assumes "browser_env (environment s)"
  shows "\<exists>s'. notify ev s = Inr s' \<and> browser_env (environment s')"
proof -
  from assms obtain w where w: "window (environment s) = Some w"
    by (auto simp: browser_env_def)
  define t where
    "t = next_streams (s\<lparr>environment := (environment s)\<lparr>window := Some (apply_event ev w)\<rparr>\<rparr>)"
  have "browser_env (environment t)"
    using assms by (simp add: t_def next_streams_frame browser_env_def)
  then obtain s3 where s3: "next_currentBreakpoint t = Inr s3"
    using next_currentBreakpoint_total by blast
  have n: "notify ev s = Inr (darkModeQuery_change w (apply_event ev w) s3)"
    using s3 by (simp add: notify_window [OF w] bind_result_def t_def)
  moreover have "browser_env (environment (darkModeQuery_change w (apply_event ev w) s3))"
    using assms by (simp add: notify_environment [OF w n] browser_env_def)
  ultimately show ?thesis by simp
qed

lemma run_in_browser:
  assumes "browser_env (environment s)" and "window (environment s) = Some w"
  shows "\<exists>s'. run s evs = Inr s' \<and>
           environment s' = (environment s)\<lparr>window := Some (fold apply_event evs w)\<rparr>"
  using assms
proof (induction evs arbitrary: s w)
  case Nil
  then show ?case by simp
next
  case (Cons ev evs)
  obtain s1 where n: "notify ev s = Inr s1" and b1: "browser_env (environment s1)"
    using notify_in_browser [OF Cons.prems(1)] by blast
  have e1: "environment s1 = (environment s)\<lparr>window := Some (apply_event ev w)\<rparr>"
    using notify_environment [OF Cons.prems(2) n] .
  then have w1: "window (environment s1) = Some (apply_event ev w)" by simp
  from Cons.IH [OF b1 w1] obtain s' where "run s1 evs = Inr s'"
    and "environment s' = (environment s1)\<lparr>window := Some (fold apply_event evs (apply_event ev w))\<rparr>"
    by blast
  then show ?case by (simp add: n bind_result_def e1)
qed

lemma service_in_browser:
  assumes "browser_env e" and "window e = Some w"
  shows "\<exists>s0 s. construct e html = Inr s0 \<and> run s0 evs = Inr s \<and>
           environment s = e\<lparr>window := Some (fold apply_event evs w)\<rparr>"
proof -
  obtain s0 where c: "construct e html = Inr s0"
    using construct_in_browser [OF assms(1)] by blast
  have e0: "environment s0 = e" by (rule construct_fields(1) [OF c])
  from run_in_browser [of s0 w evs] assms e0 c show ?thesis by auto
qed

lemma run_deterministic_environment:
  assumes "browser_env e" and "window e = Some w"
    and "construct e html = Inr s0" and "run s0 evs = Inr s"
  shows "environment s = e\<lparr>window := Some (fold apply_event evs w)\<rparr>"
    and "sig_currentBreakpoint s = breakpoint_of_width (viewportWidth (fold apply_event evs w))"
proof -
  from service_in_browser [OF assms(1,2), of html evs] assms(3,4)
  show env: "environment s = e\<lparr>window := Some (fold apply_event evs w)\<rparr>" by auto
  have "signals_current s"
    using construct_signals_current [OF assms(3)] run_signals_current assms(4) by blast
  then have "sig_currentBreakpoint s = currentBreakpoint_value (environment s)"
    by (simp add: signals_current_def)
  also have "\<dots> = breakpoint_of_width (viewportWidth (fold apply_event evs w))"
    using assms(1) by (intro currentBreakpoint_value_browser) (simp_all add: env browser_env_def)
  finally show "sig_currentBreakpoint s = breakpoint_of_width (viewportWidth (fold apply_event evs w))" .
qed

section \<open>The classes follow the signals\<close>

lemma bp_class_not_device:
  "''bp-'' @ bp_name bp \<notin> set device_class_names"
  "''bp-'' @ bp_name bp \<notin> set scheme_class_names"
  by (simp_all add: device_class_names_def scheme_class_names_def)

lemma scheme_class_not_bp:
  "''prefers-dark'' \<notin> set bp_class_names" "''prefers-light'' \<notin> set bp_class_names"
  "''mobile'' \<notin> set bp_class_names" "''tablet'' \<notin> set bp_class_names"
  "''desktop'' \<notin> set bp_class_names" "''orientation-portrait'' \<notin> set bp_class_names"
  "''orientation-landscape'' \<notin> set bp_class_names"
  by (simp_all add: bp_class_names_def)

lemma notify_classes:
  assumes "classes_current s" and "window (environment s) = Some w"
    and "notify ev s = Inr s'"
  shows "c \<in> html_classList s' \<longleftrightarrow>
     (if c = ''prefers-dark'' then prefersColorSchemeDark (apply_event ev w)
      else if c = ''prefers-light'' then \<not> prefersColorSchemeDark (apply_event ev w)
      else if c \<in> set bp_class_names
        then c = ''bp-'' @ bp_name (currentBreakpoint_value (environment s'))
      else if c = ''mobile'' then isMatched (environment s') isMobile_query
      else if c = ''tablet'' then isMatched (environment s') isTablet_query
      else if c = ''desktop'' then isMatched (environment s') isDesktop_query
      else if c = ''orientation-portrait'' then isMatched (environment s') Orientation_portrait
      else if c = ''orientation-landscape'' then \<not> isMatched (environment s') Orientation_portrait
      else c \<in> html_classList s)"
proof -
  define e' where "e' = (environment s)\<lparr>window := Some (apply_event ev w)\<rparr>"
  define s1 where "s1 = s\<lparr>environment := e'\<rparr>"
  from assms(2,3) obtain t s3 where
    t: "t = next_streams s1"
    and s3: "next_currentBreakpoint t = Inr s3"
    and s': "s' = darkModeQuery_change w (apply_event ev w) s3"
    unfolding s1_def e'_def by (rule notify_stages)
  have env': "environment s' = e'"
    using notify_environment [OF assms(2,3)] by (simp add: e'_def)
  from assms(1) have b: "isBrowser (environment s)"
    and dev: "device_classes_current s" and bpc: "bp_classes_current s"
    and sch: "scheme_classes_current w s"
    by (simp_all add: classes_current_def assms(2))
  have b1: "isBrowser (environment s1)" and e1: "environment s1 = e'"
    using b by (simp_all add: s1_def e'_def)
  have dev1: "device_classes_current s1"
    using dev by (simp add: device_classes_current_def s1_def)
  note m1 = next_streams_classes [OF b1 dev1, folded t, unfolded e1]
  have bt: "isBrowser (environment t)" and et: "environment t = e'"
    using b1 e1 by (simp_all add: t next_streams_frame)
  have bpt: "bp_classes_current t"
    unfolding bp_classes_current_def
  proof
    fix bp
    have "''bp-'' @ bp_name bp \<in> html_classList t \<longleftrightarrow> ''bp-'' @ bp_name bp \<in> html_classList s1"
      by (simp add: m1)
    also have "\<dots> \<longleftrightarrow> bp = sig_currentBreakpoint s"
      using bpc by (simp add: bp_classes_current_def s1_def)
    finally show "''bp-'' @ bp_name bp \<in> html_classList t \<longleftrightarrow> bp = sig_currentBreakpoint t"
      by (simp add: t next_streams_frame s1_def)
  qed
  note m2 = next_currentBreakpoint_classes [OF bt bpt s3, unfolded et]
  have b3: "isBrowser (environment s3)"
    using bt by (simp add: next_currentBreakpoint_frame(1) [OF s3])
  have sch3: "scheme_classes_current w s3"
    using sch
    by (simp add: scheme_classes_current_def m2 m1 scheme_class_not_bp s1_def)
  note m3 = darkModeQuery_change_classes [OF b3 sch3, of _ "apply_event ev w", folded s']
  show ?thesis
    unfolding env' m3 m2 m1 by (simp add: s1_def)
qed

lemma bp_class_distinct:
  "''bp-'' @ bp_name bp \<noteq> ''prefers-dark''" "''bp-'' @ bp_name bp \<noteq> ''prefers-light''"
  "''bp-'' @ bp_name bp \<noteq> ''touch-enabled''" "''bp-'' @ bp_name bp \<noteq> ''touch-disabled''"
  "''bp-'' @ bp_name bp \<noteq> ''orientation-portrait''"
  "''bp-'' @ bp_name bp \<noteq> ''orientation-landscape''"
  "''bp-'' @ bp_name bp \<noteq> ''desktop''" "''bp-'' @ bp_name bp \<noteq> ''tablet''"
  "''bp-'' @ bp_name bp \<noteq> ''mobile''"
  by simp_all

lemma bp_classes_currentI:
  assumes "\<And>c. c \<in> set bp_class_names \<Longrightarrow>
             c \<in> html_classList s \<longleftrightarrow> c = ''bp-'' @ bp_name (sig_currentBreakpoint s)"
  shows "bp_classes_current s"
  unfolding bp_classes_current_def
proof
  fix bp
  show "''bp-'' @ bp_name bp \<in> html_classList s \<longleftrightarrow> bp = sig_currentBreakpoint s"
    unfolding assms [OF bp_class_in_names] bp_class_inj ..
qed

lemma notify_classes_current:
  assumes "classes_current s" and "notify ev s = Inr s'"
  shows "classes_current s'"
proof -
  from assms(1) obtain w where w: "window (environment s) = Some w"
    by (auto simp: classes_current_def split: option.splits)
  note m = notify_classes [OF assms(1) w assms(2)]
  have env': "environment s' = (environment s)\<lparr>window := Some (apply_event ev w)\<rparr>"
    by (rule notify_environment [OF w assms(2)])
  have sig: "signals_current s'"
    using assms by (auto simp: classes_current_def intro: notify_signals_current)
  have "device_classes_current s'"
    using sig by (simp add: device_classes_current_def m signals_current_def scheme_class_not_bp)
  moreover have "bp_classes_current s'"
  proof (rule bp_classes_currentI)
    fix c assume "c \<in> set bp_class_names"
    moreover from this have "c \<noteq> ''prefers-dark''" "c \<noteq> ''prefers-light''"
      using scheme_class_not_bp by auto
    moreover have "sig_currentBreakpoint s' = currentBreakpoint_value (environment s')"
      using sig by (simp add: signals_current_def)
    ultimately show "c \<in> html_classList s' \<longleftrightarrow> c = ''bp-'' @ bp_name (sig_currentBreakpoint s')"
      by (simp add: m)
  qed
  moreover have "scheme_classes_current (apply_event ev w) s'"
    by (simp add: scheme_classes_current_def m)
  ultimately show ?thesis
    using assms(1) sig by (simp add: classes_current_def env')
qed

lemma notify_other_classes:
  assumes "classes_current s" and "notify ev s = Inr s'"
    and "c \<notin> set reactive_class_names"
  shows "c \<in> html_classList s' \<longleftrightarrow> c \<in> html_classList s"
proof -
  from assms(1) obtain w where w: "window (environment s) = Some w"
    by (auto simp: classes_current_def split: option.splits)
  from assms(3) have "c \<notin> set bp_class_names" "c \<notin> set device_class_names"
    "c \<notin> set scheme_class_names"
    by (simp_all add: reactive_class_names_def)
  then show ?thesis
    by (simp add: notify_classes [OF assms(1) w assms(2)] device_class_names_def
        scheme_class_names_def)
qed

lemma run_classes_current:
  assumes "classes_current s" and "run s evs = Inr s'"
  shows "classes_current s'"
    and "c \<notin> set reactive_class_names \<Longrightarrow> c \<in> html_classList s' \<longleftrightarrow> c \<in> html_classList s"
proof -
  have "classes_current s' \<and>
        (c \<notin> set reactive_class_names \<longrightarrow> (c \<in> html_classList s' \<longleftrightarrow> c \<in> html_classList s))"
    using assms
  proof (induction evs arbitrary: s)
    case Nil
    then show ?case by simp
  next
    case (Cons ev evs)
    from Cons.prems(2) obtain s1 where n: "notify ev s = Inr s1" and r: "run s1 evs = Inr s'"
      by (cases "notify ev s") (simp_all add: bind_result_def)
    have c1: "classes_current s1"
      by (rule notify_classes_current [OF Cons.prems(1) n])
    from Cons.IH [OF c1 r] notify_other_classes [OF Cons.prems(1) n, of c]
    show ?case by auto
  qed
  then show "classes_current s'"
    and "c \<notin> set reactive_class_names \<Longrightarrow> c \<in> html_classList s' \<longleftrightarrow> c \<in> html_classList s"
    by simp_all
qed

text \<open>The class list construction leaves in a browser, class by class.\<close>

lemma construct_classes:
  assumes "browser_env e" and "window e = Some w" and "construct e html = Inr s"
  shows "c \<in> html_classList s \<longleftrightarrow>
     (if c = ''prefers-dark'' then prefersColorSchemeDark w
      else if c = ''prefers-light'' then \<not> prefersColorSchemeDark w
      else if c = ''touch-enabled'' then ontouchstart w \<or> 0 < maxTouchPoints w
      else if c = ''touch-disabled'' then \<not> (ontouchstart w \<or> 0 < maxTouchPoints w)
      else if c = ''orientation-portrait'' then isMatched e Orientation_portrait
      else if c = ''orientation-landscape'' then \<not> isMatched e Orientation_portrait
      else if c = ''desktop'' then isMatched e isDesktop_query
      else if c = ''tablet'' then isMatched e isTablet_query
      else if c = ''mobile'' then isMatched e isMobile_query
      else if c \<in> set bp_class_names then c = ''bp-'' @ bp_name (currentBreakpoint_value e)
      else c = ''platform-'' @ platform_name (detectPlatform e) \<or>
           c = ''browser-'' @ browser_name (browser_by_precedence (userAgent w)) \<or>
           (\<exists>os'. detectOS e = Inr os' \<and> c = ''os-'' @ os_name os') \<or>
           c \<in> html)"
proof -
  from assms(1) have b: "isBrowser e" by (simp add: browser_env_def)
  obtain st where st: "state_map e (currentBreakpoint_value e) = Inr st"
    using state_map_in_browser [OF assms(1)] by blast
  define s0 where "s0 =
    \<lparr> environment = e, html_classList = html,
      sig_isSm = observe e TAILWIND_BREAKPOINTS_sm,
      sig_isMd = observe e TAILWIND_BREAKPOINTS_md,
      sig_isLg = observe e TAILWIND_BREAKPOINTS_lg,
      sig_isXl = observe e TAILWIND_BREAKPOINTS_xl,
      sig_is2xl = observe e TAILWIND_BREAKPOINTS_2xl,
      sig_isMobile = observe e isMobile_query,
      sig_isTablet = observe e isTablet_query,
      sig_isDesktop = observe e isDesktop_query,
      sig_isPortrait = observe e Orientation_portrait,
      sig_isLandscape = observe e Orientation_landscape,
      sig_currentBreakpoint = currentBreakpoint_value e,
      sig_state = Some st \<rparr>"
  have a: "applyClassesToHtml s0 = Inr s"
    using assms(3) by (simp add: construct_def Let_def bind_result_def st s0_def b)
  have e0: "environment s0 = e" by (simp add: s0_def)
  have "browser_env (environment s0)" "window (environment s0) = Some w"
    using assms(1,2) by (simp_all add: e0)
  from applyClassesToHtml_classes [OF this a]
  show ?thesis
    by (simp add: class_after_apply_def s0_def observe_isMatched)
qed

lemma construct_classes_current:
  assumes "browser_env e" and "construct e html = Inr s"
  shows "classes_current s"
proof -
  from assms(1) obtain w where w: "window e = Some w" and b: "isBrowser e" "cdkPlatform_isBrowser e"
    by (auto simp: browser_env_def)
  note m = construct_classes [OF assms(1) w assms(2)]
  note f = construct_fields [OF assms(2)]
  have sig: "signals_current s" by (rule construct_signals_current [OF assms(2)])
  have "device_classes_current s"
    by (simp add: device_classes_current_def m f)
  moreover have "bp_classes_current s"
  proof (rule bp_classes_currentI)
    fix c assume "c \<in> set bp_class_names"
    moreover from this have "c \<noteq> ''prefers-dark''" "c \<noteq> ''prefers-light''"
      "c \<noteq> ''touch-enabled''" "c \<noteq> ''touch-disabled''" "c \<noteq> ''orientation-portrait''"
      "c \<noteq> ''orientation-landscape''" "c \<noteq> ''desktop''" "c \<noteq> ''tablet''" "c \<noteq> ''mobile''"
      by (auto simp: bp_class_names_def)
    ultimately show "c \<in> html_classList s \<longleftrightarrow> c = ''bp-'' @ bp_name (sig_currentBreakpoint s)"
      by (simp add: m f)
  qed
  moreover have "scheme_classes_current w s"
    by (simp add: scheme_classes_current_def m)
  ultimately show ?thesis
    using sig b w by (simp add: classes_current_def f(1))
qed

lemma static_class_not_reactive: "static_class c \<Longrightarrow> c \<notin> set reactive_class_names"
  by (auto simp: static_class_def reactive_class_names_def device_class_names_def
      bp_class_names_def scheme_class_names_def)

lemma static_class_names:
  "static_class (''platform-'' @ platform_name p)"
  "static_class (''browser-'' @ browser_name b)"
  "static_class (''os-'' @ os_name os')"
  "static_class ''touch-enabled''" "static_class ''touch-disabled''"
  by (simp_all add: static_class_def)

lemma browser_run_classes:
  assumes "browser_env e" and "window e = Some w"
    and "construct e html = Inr s0" and "run s0 evs = Inr s"
  shows "''bp-'' @ bp_name bp \<in> html_classList s \<longleftrightarrow>
           bp = breakpoint_of_width (viewportWidth (fold apply_event evs w))"
    and "''mobile'' \<in> html_classList s \<longleftrightarrow> viewportWidth (fold apply_event evs w) \<le> 767"
    and "''tablet'' \<in> html_classList s \<longleftrightarrow>
           768 \<le> viewportWidth (fold apply_event evs w) \<and>
           viewportWidth (fold apply_event evs w) \<le> 1023"
    and "''desktop'' \<in> html_classList s \<longleftrightarrow> 1024 \<le> viewportWidth (fold apply_event evs w)"
    and "''orientation-portrait'' \<in> html_classList s \<longleftrightarrow>
           viewportWidth (fold apply_event evs w) \<le> viewportHeight (fold apply_event evs w)"
    and "''orientation-landscape'' \<in> html_classList s \<longleftrightarrow>
           \<not> viewportWidth (fold apply_event evs w) \<le> viewportHeight (fold apply_event evs w)"
    and "''prefers-dark'' \<in> html_classList s \<longleftrightarrow>
           prefersColorSchemeDark (fold apply_event evs w)"
    and "''prefers-light'' \<in> html_classList s \<longleftrightarrow>
           \<not> prefersColorSchemeDark (fold apply_event evs w)"
    and "static_class c \<Longrightarrow> c \<in> html_classList s \<longleftrightarrow> c \<in> html_classList s0"
proof -
  have c0: "classes_current s0"
    by (rule construct_classes_current [OF assms(1,3)])
  have cs: "classes_current s"
    by (rule run_classes_current(1) [OF c0 assms(4)])
  note d = run_deterministic_environment [OF assms]
  from assms(1) have cdk: "cdkPlatform_isBrowser (environment s)"
    and win: "window (environment s) = Some (fold apply_event evs w)"
    by (simp_all add: d(1) browser_env_def)
  note im = isMatched_window [OF win]
  from cs have sig: "signals_current s" and dev: "device_classes_current s"
    and bpc: "bp_classes_current s"
    and sch: "scheme_classes_current (fold apply_event evs w) s"
    by (simp_all add: classes_current_def win)
  show "''bp-'' @ bp_name bp \<in> html_classList s \<longleftrightarrow>
           bp = breakpoint_of_width (viewportWidth (fold apply_event evs w))"
    using bpc unfolding bp_classes_current_def d(2) by blast
  show "''mobile'' \<in> html_classList s \<longleftrightarrow> viewportWidth (fold apply_event evs w) \<le> 767"
    using dev sig cdk
    by (simp add: device_classes_current_def signals_current_def im isMobile_query_def)
  show "''tablet'' \<in> html_classList s \<longleftrightarrow>
           768 \<le> viewportWidth (fold apply_event evs w) \<and>
           viewportWidth (fold apply_event evs w) \<le> 1023"
    using dev sig cdk
    by (simp add: device_classes_current_def signals_current_def im isTablet_query_def)
  show "''desktop'' \<in> html_classList s \<longleftrightarrow> 1024 \<le> viewportWidth (fold apply_event evs w)"
    using dev sig cdk
    by (simp add: device_classes_current_def signals_current_def im isDesktop_query_def)
  show "''orientation-portrait'' \<in> html_classList s \<longleftrightarrow>
           viewportWidth (fold apply_event evs w) \<le> viewportHeight (fold apply_event evs w)"
    using dev sig cdk
    by (simp add: device_classes_current_def signals_current_def im)
  show "''orientation-landscape'' \<in> html_classList s \<longleftrightarrow>
           \<not> viewportWidth (fold apply_event evs w) \<le> viewportHeight (fold apply_event evs w)"
    using dev sig cdk
    by (simp add: device_classes_current_def signals_current_def im)
  show "''prefers-dark'' \<in> html_classList s \<longleftrightarrow>
           prefersColorSchemeDark (fold apply_event evs w)"
    using sch by (simp add: scheme_classes_current_def)
  show "''prefers-light'' \<in> html_classList s \<longleftrightarrow>
           \<not> prefersColorSchemeDark (fold apply_event evs w)"
    using sch by (simp add: scheme_classes_current_def)
  show "c \<in> html_classList s \<longleftrightarrow> c \<in> html_classList s0" if "static_class c"
    by (rule run_classes_current(2) [OF c0 assms(4) static_class_not_reactive [OF that]])
qed

lemma construct_static_classes:
  assumes "browser_env e" and "window e = Some w" and "construct e html = Inr s0"
    and "detectOS e = Inr os'"
  shows "''platform-'' @ platform_name (detectPlatform e) \<in> html_classList s0"
    and "''browser-'' @ browser_name (browser_by_precedence (userAgent w)) \<in> html_classList s0"
    and "''os-'' @ os_name os' \<in> html_classList s0"
    and "''touch-enabled'' \<in> html_classList s0 \<longleftrightarrow> ontouchstart w \<or> 0 < maxTouchPoints w"
    and "''touch-disabled'' \<in> html_classList s0 \<longleftrightarrow> \<not> (ontouchstart w \<or> 0 < maxTouchPoints w)"
    and "static_class c \<Longrightarrow>
         c \<noteq> ''platform-'' @ platform_name (detectPlatform e) \<Longrightarrow>
         c \<noteq> ''browser-'' @ browser_name (browser_by_precedence (userAgent w)) \<Longrightarrow>
         c \<noteq> ''os-'' @ os_name os' \<Longrightarrow>
         c \<noteq> ''touch-enabled'' \<Longrightarrow> c \<noteq> ''touch-disabled'' \<Longrightarrow>
         c \<in> html_classList s0 \<longleftrightarrow> c \<in> html"
proof -
  note m = construct_classes [OF assms(1-3)]
  have nr: "c \<noteq> ''prefers-dark'' \<and> c \<noteq> ''prefers-light'' \<and> c \<noteq> ''orientation-portrait'' \<and>
            c \<noteq> ''orientation-landscape'' \<and> c \<noteq> ''desktop'' \<and> c \<noteq> ''tablet'' \<and>
            c \<noteq> ''mobile'' \<and> c \<notin> set bp_class_names" if "static_class c" for c
    using static_class_not_reactive [OF that]
    by (auto simp: reactive_class_names_def device_class_names_def scheme_class_names_def)
  show "''platform-'' @ platform_name (detectPlatform e) \<in> html_classList s0"
    using nr [OF static_class_names(1), of "detectPlatform e"]
    unfolding m by (simp add: static_class_def)
  show "''browser-'' @ browser_name (browser_by_precedence (userAgent w)) \<in> html_classList s0"
    using nr [OF static_class_names(2), of "browser_by_precedence (userAgent w)"]
    unfolding m by (simp add: static_class_def)
  show "''os-'' @ os_name os' \<in> html_classList s0"
    using nr [OF static_class_names(3), of os'] assms(4)
    unfolding m by (simp add: static_class_def)
  show "''touch-enabled'' \<in> html_classList s0 \<longleftrightarrow> ontouchstart w \<or> 0 < maxTouchPoints w"
    unfolding m by simp
  show "''touch-disabled'' \<in> html_classList s0 \<longleftrightarrow> \<not> (ontouchstart w \<or> 0 < maxTouchPoints w)"
    unfolding m by simp
  show "c \<in> html_classList s0 \<longleftrightarrow> c \<in> html"
    if "static_class c" "c \<noteq> ''platform-'' @ platform_name (detectPlatform e)"
      "c \<noteq> ''browser-'' @ browser_name (browser_by_precedence (userAgent w))"
      "c \<noteq> ''os-'' @ os_name os'" "c \<noteq> ''touch-enabled''" "c \<noteq> ''touch-disabled''"
    using nr [OF that(1)] that(2-6) assms(4) unfolding m by auto
qed

section \<open>A colour-scheme change\<close>

text \<open>
  A change of the colour scheme leaves every width and orientation query as it was, so no
  stream emits: the listener flips the two \<^verbatim>\<open>prefers-\<close> classes, and nothing else happens.
  In particular \<^verbatim>\<open>state$\<close>, which maps over \<^verbatim>\<open>currentBreakpoint$\<close>, computes no snapshot.
\<close>

lemma notify_colorScheme:
  assumes "classes_current s" and "notify (ColorSchemeChange dark) s = Inr s'"
  shows "sig_state s' = sig_state s"
    and "''prefers-dark'' \<in> html_classList s' \<longleftrightarrow> dark"
    and "''prefers-light'' \<in> html_classList s' \<longleftrightarrow> \<not> dark"
    and "c \<noteq> ''prefers-dark'' \<Longrightarrow> c \<noteq> ''prefers-light'' \<Longrightarrow>
         c \<in> html_classList s' \<longleftrightarrow> c \<in> html_classList s"
proof -
  from assms(1) obtain w where w: "window (environment s) = Some w"
    by (auto simp: classes_current_def split: option.splits)
  note m = notify_classes [OF assms(1) w assms(2)]
  have env': "environment s' =
      (environment s)\<lparr>window := Some (w\<lparr>prefersColorSchemeDark := dark\<rparr>)\<rparr>"
    using notify_environment [OF w assms(2)] by simp
  have im: "isMatched (environment s') (MinWidth n) = isMatched (environment s) (MinWidth n)"
    "isMatched (environment s') (MaxWidth n) = isMatched (environment s) (MaxWidth n)"
    "isMatched (environment s') isTablet_query = isMatched (environment s) isTablet_query"
    "isMatched (environment s') Orientation_portrait = isMatched (environment s) Orientation_portrait"
    for n
    by (simp_all add: env' isMatched_def w isTablet_query_def)
  have bp: "currentBreakpoint_value (environment s') = currentBreakpoint_value (environment s)"
    by (simp add: currentBreakpoint_value_isMatched TAILWIND_BREAKPOINTS_defs im)
  from assms(1) have sig: "signals_current s" and dev: "device_classes_current s"
    and bpc: "bp_classes_current s"
    by (simp_all add: classes_current_def)
  show "''prefers-dark'' \<in> html_classList s' \<longleftrightarrow> dark"
    by (simp add: m)
  show "''prefers-light'' \<in> html_classList s' \<longleftrightarrow> \<not> dark"
    by (simp add: m)
  show "c \<in> html_classList s' \<longleftrightarrow> c \<in> html_classList s"
    if "c \<noteq> ''prefers-dark''" "c \<noteq> ''prefers-light''"
  proof (cases "c \<in> set bp_class_names")
    case True
    have "c \<in> html_classList s \<longleftrightarrow> c = ''bp-'' @ bp_name (sig_currentBreakpoint s)"
      by (rule bp_classes_current_names [OF bpc True])
    moreover have "sig_currentBreakpoint s = currentBreakpoint_value (environment s)"
      using sig by (simp add: signals_current_def)
    ultimately show ?thesis
      using that True by (simp add: m bp)
  next
    case False
    with that dev sig show ?thesis
      by (simp add: m im device_classes_current_def signals_current_def isMobile_query_def
          isDesktop_query_def)
  qed
  show "sig_state s' = sig_state s"
  proof -
    from w assms(2) obtain t s3 where
      t: "t = next_streams (s\<lparr>environment := (environment s)\<lparr>window :=
              Some (apply_event (ColorSchemeChange dark) w)\<rparr>\<rparr>)"
      and s3: "next_currentBreakpoint t = Inr s3"
      and s': "s' = darkModeQuery_change w (apply_event (ColorSchemeChange dark) w) s3"
      by (rule notify_stages)
    have et: "environment t = environment s'"
      by (simp add: t next_streams_frame env')
    have "currentBreakpoint_value (environment t) = currentBreakpoint_value (environment s)"
      unfolding et by (rule bp)
    moreover have "sig_currentBreakpoint t = sig_currentBreakpoint s"
      by (simp add: t next_streams_frame)
    moreover have "sig_currentBreakpoint s = currentBreakpoint_value (environment s)"
      using sig by (simp add: signals_current_def)
    ultimately have "currentBreakpoint_value (environment t) = sig_currentBreakpoint t"
      by simp
    with s3 have "s3 = t"
      by (simp add: next_currentBreakpoint_def Let_def distinctUntilChanged_def)
    then show ?thesis
      by (simp add: s' darkModeQuery_change_frame t next_streams_frame)
  qed
qed

section \<open>The device signals and the device fields\<close>

text \<open>
  The snapshot derives its device fields from the md and lg thresholds, so they partition
  every width. The three device signals, and the classes \<^verbatim>\<open>mobile\<close>, \<^verbatim>\<open>tablet\<close>, \<^verbatim>\<open>desktop\<close>
  that follow them, observe queries of their own, with upper bounds 767 and 1023: they
  partition the whole-pixel widths.
\<close>

lemma snapshot_device_bands:
  assumes "browser_env e" and "window e = Some w"
    and "construct e html = Inr s0" and "run s0 evs = Inr s"
  shows "\<exists>st. sig_state s = Some st \<and>
           (isMobile st \<longleftrightarrow> viewportWidth (fold apply_event evs w) < 768) \<and>
           (isTablet st \<longleftrightarrow> 768 \<le> viewportWidth (fold apply_event evs w) \<and>
                             viewportWidth (fold apply_event evs w) < 1024) \<and>
           (isDesktop st \<longleftrightarrow> 1024 \<le> viewportWidth (fold apply_event evs w))"
proof -
  have "snapshot_current s"
    using construct_snapshot_current [OF assms(3)] run_snapshot_current assms(4) by blast
  then obtain st where st: "sig_state s = Some st" and ag: "snapshot_agrees st"
    and bp: "breakpoint st = sig_currentBreakpoint s"
    by (auto simp: snapshot_current_def split: option.splits)
  have "breakpoint st = breakpoint_of_width (viewportWidth (fold apply_event evs w))"
    by (simp add: bp run_deterministic_environment(2) [OF assms])
  with ag have
    "(isMobile st \<longleftrightarrow> viewportWidth (fold apply_event evs w) < 768) \<and>
     (isTablet st \<longleftrightarrow> 768 \<le> viewportWidth (fold apply_event evs w) \<and>
                       viewportWidth (fold apply_event evs w) < 1024) \<and>
     (isDesktop st \<longleftrightarrow> 1024 \<le> viewportWidth (fold apply_event evs w))"
    unfolding snapshot_agrees_def breakpoint_of_width_def
    by (auto split: if_splits)
  with st show ?thesis by blast
qed

lemma device_signal_bands:
  assumes "browser_env e" and "window e = Some w"
    and "construct e html = Inr s0" and "run s0 evs = Inr s"
  shows "sig_isMobile s \<longleftrightarrow> viewportWidth (fold apply_event evs w) \<le> 767"
    and "sig_isTablet s \<longleftrightarrow> 768 \<le> viewportWidth (fold apply_event evs w) \<and>
                          viewportWidth (fold apply_event evs w) \<le> 1023"
    and "sig_isDesktop s \<longleftrightarrow> 1024 \<le> viewportWidth (fold apply_event evs w)"
proof -
  have sig: "signals_current s"
    using construct_signals_current [OF assms(3)] run_signals_current assms(4) by blast
  note d = run_deterministic_environment(1) [OF assms]
  from assms(1) have cdk: "cdkPlatform_isBrowser (environment s)"
    and win: "window (environment s) = Some (fold apply_event evs w)"
    by (simp_all add: d browser_env_def)
  note im = isMatched_window [OF win]
  show "sig_isMobile s \<longleftrightarrow> viewportWidth (fold apply_event evs w) \<le> 767"
    using sig cdk by (simp add: signals_current_def im isMobile_query_def)
  show "sig_isTablet s \<longleftrightarrow> 768 \<le> viewportWidth (fold apply_event evs w) \<and>
                          viewportWidth (fold apply_event evs w) \<le> 1023"
    using sig cdk by (simp add: signals_current_def im isTablet_query_def)
  show "sig_isDesktop s \<longleftrightarrow> 1024 \<le> viewportWidth (fold apply_event evs w)"
    using sig cdk by (simp add: signals_current_def im isDesktop_query_def)
qed

lemma whole_pixel_bounds:
  assumes "width \<in> \<int>"
  shows "width \<le> 767 \<longleftrightarrow> width < (768 :: real)"
    and "width \<le> 1023 \<longleftrightarrow> width < (1024 :: real)"
proof -
  from assms obtain k :: int where k: "width = of_int k"
    by (auto elim: Ints_cases)
  have "(of_int k :: real) \<le> 767 \<longleftrightarrow> k \<le> 767" by linarith
  also have "\<dots> \<longleftrightarrow> k < 768" by linarith
  also have "\<dots> \<longleftrightarrow> (of_int k :: real) < 768" by linarith
  finally show "width \<le> 767 \<longleftrightarrow> width < (768 :: real)" unfolding k .
  have "(of_int k :: real) \<le> 1023 \<longleftrightarrow> k \<le> 1023" by linarith
  also have "\<dots> \<longleftrightarrow> k < 1024" by linarith
  also have "\<dots> \<longleftrightarrow> (of_int k :: real) < 1024" by linarith
  finally show "width \<le> 1023 \<longleftrightarrow> width < (1024 :: real)" unfolding k .
qed

lemma device_signals_whole_pixels:
  assumes "browser_env e" and "window e = Some w"
    and "construct e html = Inr s0" and "run s0 evs = Inr s"
    and "viewportWidth (fold apply_event evs w) \<in> \<int>"
  shows "sig_isMobile s \<longleftrightarrow> viewportWidth (fold apply_event evs w) < 768"
    and "sig_isTablet s \<longleftrightarrow> 768 \<le> viewportWidth (fold apply_event evs w) \<and>
                          viewportWidth (fold apply_event evs w) < 1024"
    and "sig_isDesktop s \<longleftrightarrow> 1024 \<le> viewportWidth (fold apply_event evs w)"
  using device_signal_bands [OF assms(1-4)] whole_pixel_bounds [OF assms(5)]
  by simp_all

section \<open>The claims\<close>

text \<open>
  C1. In a browser, after construction and any sequence of change notifications, the
  \<^verbatim>\<open>currentBreakpoint\<close> signal is decided by the viewport width: 2xl from 1536, xl from 1280
  up to 1536, lg from 1024 up to 1280, md from 768 up to 1024, sm from 640 up to 768, and xs
  below 640. It is the first of the five thresholds, tested from the largest to the smallest,
  that the width reaches, and xs when it reaches none.
\<close>

theorem currentBreakpoint_by_width:
  assumes "browser_env e" and "window e = Some w"
  shows "\<exists>s0 s width.
           construct e html = Inr s0 \<and> run s0 evs = Inr s \<and>
           window (environment s) = Some (fold apply_event evs w) \<and>
           width = viewportWidth (fold apply_event evs w) \<and>
           (1536 \<le> width \<longrightarrow> sig_currentBreakpoint s = BP_2xl) \<and>
           (1280 \<le> width \<and> width < 1536 \<longrightarrow> sig_currentBreakpoint s = BP_xl) \<and>
           (1024 \<le> width \<and> width < 1280 \<longrightarrow> sig_currentBreakpoint s = BP_lg) \<and>
           (768 \<le> width \<and> width < 1024 \<longrightarrow> sig_currentBreakpoint s = BP_md) \<and>
           (640 \<le> width \<and> width < 768 \<longrightarrow> sig_currentBreakpoint s = BP_sm) \<and>
           (width < 640 \<longrightarrow> sig_currentBreakpoint s = BP_xs) \<and>
           sig_currentBreakpoint s = first_matching_threshold width"
proof -
  obtain s0 s where c: "construct e html = Inr s0" and r: "run s0 evs = Inr s"
    using service_in_browser [OF assms] by blast
  note d = run_deterministic_environment [OF assms c r]
  define width where "width = viewportWidth (fold apply_event evs w)"
  have bp: "sig_currentBreakpoint s = breakpoint_of_width width"
    by (simp add: d(2) width_def)
  have bands:
    "(1536 \<le> width \<longrightarrow> sig_currentBreakpoint s = BP_2xl) \<and>
     (1280 \<le> width \<and> width < 1536 \<longrightarrow> sig_currentBreakpoint s = BP_xl) \<and>
     (1024 \<le> width \<and> width < 1280 \<longrightarrow> sig_currentBreakpoint s = BP_lg) \<and>
     (768 \<le> width \<and> width < 1024 \<longrightarrow> sig_currentBreakpoint s = BP_md) \<and>
     (640 \<le> width \<and> width < 768 \<longrightarrow> sig_currentBreakpoint s = BP_sm) \<and>
     (width < 640 \<longrightarrow> sig_currentBreakpoint s = BP_xs)"
    unfolding bp by (simp add: breakpoint_of_width_def)
  have first: "sig_currentBreakpoint s = first_matching_threshold width"
    unfolding bp by (simp add: first_matching_threshold_bands)
  have "window (environment s) = Some (fold apply_event evs w)"
    by (simp add: d(1))
  with c r width_def bands first show ?thesis by blast
qed

theorem currentBreakpoint_by_width_witness:
  "\<exists>s0 s. construct (in_browser (browser_window 1280 800 False edge_userAgent)) {} = Inr s0 \<and>
          sig_currentBreakpoint s0 = BP_xl \<and>
          run s0 [Resize 1535.5 800, Resize 639.5 800] = Inr s \<and>
          sig_currentBreakpoint s = BP_xs"
proof -
  let ?w = "browser_window 1280 800 False edge_userAgent"
  let ?e = "in_browser ?w"
  have b: "browser_env ?e" and w: "window ?e = Some ?w"
    by (simp_all add: browser_env_def in_browser_def)
  from currentBreakpoint_by_width [OF b w, of "{}" "[]"]
  obtain s0 s1 width where c: "construct ?e {} = Inr s0" and r: "run s0 [] = Inr s1"
    and wd: "width = viewportWidth (fold apply_event [] ?w)"
    and xl: "1280 \<le> width \<and> width < 1536 \<longrightarrow> sig_currentBreakpoint s1 = BP_xl"
    by blast
  from r have "s1 = s0" by simp
  moreover from wd have "width = 1280" by (simp add: browser_window_def)
  ultimately have bp0: "sig_currentBreakpoint s0 = BP_xl" using xl by simp
  from currentBreakpoint_by_width [OF b w, of "{}" "[Resize 1535.5 800, Resize 639.5 800]"]
  obtain s0' s width' where c': "construct ?e {} = Inr s0'"
    and r': "run s0' [Resize 1535.5 800, Resize 639.5 800] = Inr s"
    and wd': "width' = viewportWidth (fold apply_event [Resize 1535.5 800, Resize 639.5 800] ?w)"
    and xs: "width' < 640 \<longrightarrow> sig_currentBreakpoint s = BP_xs"
    by blast
  from c c' have "s0' = s0" by simp
  moreover from wd' have "width' = 639.5" by simp
  ultimately have "run s0 [Resize 1535.5 800, Resize 639.5 800] = Inr s"
    and "sig_currentBreakpoint s = BP_xs"
    using r' xs by simp_all
  with c bp0 show ?thesis by blast
qed

text \<open>
  C2, evaluated. At a viewport 767.5 CSS pixels wide none of the three device signals holds
  and none of the three classes is set, while the snapshot of the same moment says mobile.
\<close>

theorem device_signals_gap_between_767_and_768:
  "case construct (in_browser (browser_window 767.5 900 False edge_userAgent)) {} of
     Inl err \<Rightarrow> False
   | Inr s \<Rightarrow>
       \<not> sig_isMobile s \<and> \<not> sig_isTablet s \<and> \<not> sig_isDesktop s \<and>
       ''mobile'' \<notin> html_classList s \<and> ''tablet'' \<notin> html_classList s \<and>
       ''desktop'' \<notin> html_classList s \<and>
       map_option isMobile (sig_state s) = Some True \<and>
       map_option isTablet (sig_state s) = Some False \<and>
       map_option isDesktop (sig_state s) = Some False \<and>
       sig_currentBreakpoint s = BP_sm"
proof -
  let ?w = "browser_window 767.5 900 False edge_userAgent"
  let ?e = "in_browser ?w"
  have b: "browser_env ?e" and w: "window ?e = Some ?w"
    by (simp_all add: browser_env_def in_browser_def)
  obtain s where c: "construct ?e {} = Inr s"
    using construct_in_browser [OF b] by blast
  have r: "run s [] = Inr s" by simp
  have width: "viewportWidth (fold apply_event [] ?w) = 767.5"
    by (simp add: browser_window_def)
  note sg = device_signal_bands [OF b w c r, unfolded width]
  note cl = browser_run_classes(2-4) [OF b w c r, unfolded width]
  from snapshot_device_bands [OF b w c r, unfolded width]
  obtain st where st: "sig_state s = Some st" and "isMobile st" "\<not> isTablet st" "\<not> isDesktop st"
    by auto
  moreover have "sig_currentBreakpoint s = BP_sm"
    using run_deterministic_environment(2) [OF b w c r, unfolded width]
    by (simp add: breakpoint_of_width_def)
  ultimately show ?thesis
    using c sg cl by simp
qed

text \<open>
  C3, evaluated. The page is built under the light scheme and the system then changes to
  dark. The root element exchanges \<^verbatim>\<open>prefers-light\<close> for \<^verbatim>\<open>prefers-dark\<close> and keeps every
  other class, but the snapshot is the one computed at construction: its \<^verbatim>\<open>prefersDark\<close>
  is still false.
\<close>

theorem colorScheme_toggle_keeps_snapshot:
  "case construct (in_browser (browser_window 1300 700 False edge_userAgent)) {''theme''} of
     Inl err \<Rightarrow> False
   | Inr s0 \<Rightarrow>
       (case notify (ColorSchemeChange True) s0 of
          Inl err \<Rightarrow> False
        | Inr s \<Rightarrow>
            window (environment s) = Some (browser_window 1300 700 True edge_userAgent) \<and>
            ''prefers-light'' \<in> html_classList s0 \<and> ''prefers-dark'' \<notin> html_classList s0 \<and>
            ''prefers-dark'' \<in> html_classList s \<and> ''prefers-light'' \<notin> html_classList s \<and>
            html_classList s - {''prefers-dark'', ''prefers-light''} =
              html_classList s0 - {''prefers-dark'', ''prefers-light''} \<and>
            sig_state s = sig_state s0 \<and>
            map_option prefersDark (sig_state s) = Some False)"
proof -
  let ?w = "browser_window 1300 700 False edge_userAgent"
  let ?e = "in_browser ?w"
  have b: "browser_env ?e" and w: "window ?e = Some ?w" and ib: "isBrowser ?e"
    by (simp_all add: browser_env_def in_browser_def)
  obtain s0 where c: "construct ?e {''theme''} = Inr s0"
    using construct_in_browser [OF b] by blast
  note f = construct_fields [OF c]
  have c0: "classes_current s0"
    by (rule construct_classes_current [OF b c])
  have "browser_env (environment s0)" by (simp add: f(1) b)
  then obtain s where n: "notify (ColorSchemeChange True) s0 = Inr s"
    using notify_in_browser by blast
  note cs = notify_colorScheme [OF c0 n]
  from f(3) obtain st where sm: "state_map ?e (currentBreakpoint_value ?e) = Inr st"
    and st: "sig_state s0 = Some st"
    by blast
  have "prefersDark st = prefersColorSchemeDark ?w"
    by (rule state_map_prefersDark [OF ib w sm])
  then have nd: "\<not> prefersDark st" by (simp add: browser_window_def)
  have "window (environment s0) = Some ?w" by (simp add: f(1) w)
  from notify_environment [OF this n]
  have win: "window (environment s) = Some (browser_window 1300 700 True edge_userAgent)"
    by (simp add: browser_window_def)
  have l0: "''prefers-light'' \<in> html_classList s0" and d0: "''prefers-dark'' \<notin> html_classList s0"
    by (simp_all add: construct_classes [OF b w c] browser_window_def)
  have "html_classList s - {''prefers-dark'', ''prefers-light''} =
          html_classList s0 - {''prefers-dark'', ''prefers-light''}"
    using cs(4) by blast
  with c n win l0 d0 cs(1-3) st nd show ?thesis by simp
qed

text \<open>
  C4, as the code has it. Outside a browser (both platform flags false, no \<^verbatim>\<open>window\<close>)
  construction does not raise, no notification changes anything, and every accessor has a
  value: the boolean signals and the boolean snapshot fields \<^verbatim>\<open>isPortrait\<close>,
  \<^verbatim>\<open>isLandscape\<close>, \<^verbatim>\<open>isTouchEnabled\<close>, \<^verbatim>\<open>prefersDark\<close> are false, \<^verbatim>\<open>browser\<close> and \<^verbatim>\<open>os\<close> are
  \<^verbatim>\<open>other\<close>, the breakpoint is xs, and \<^verbatim>\<open>platform\<close> is \<^verbatim>\<open>mobile\<close>: no media query matches, and
  the \<^verbatim>\<open>desktop\<close> the accessor falls back to is for a missing snapshot, which does not occur.
  The root element's classes are left alone.
\<close>

theorem non_interactive_defaults:
  assumes "server_env e"
  shows "\<exists>s st. construct e html = Inr s \<and> run s evs = Inr s \<and> sig_state s = Some st \<and>
           \<not> isPortrait st \<and> \<not> isLandscape st \<and> \<not> isTouchEnabled st \<and> \<not> prefersDark st \<and>
           browser st = OtherBrowser \<and> os st = OtherOS \<and> platform st = Mobile \<and>
           breakpoint st = BP_xs \<and> isMobile st \<and> \<not> isTablet st \<and> \<not> isDesktop st \<and>
           sig_browser s = OtherBrowser \<and> sig_os s = OtherOS \<and> sig_platform s = Mobile \<and>
           sig_currentBreakpoint s = BP_xs \<and>
           \<not> sig_isSm s \<and> \<not> sig_isMd s \<and> \<not> sig_isLg s \<and> \<not> sig_isXl s \<and> \<not> sig_is2xl s \<and>
           \<not> sig_isMobile s \<and> \<not> sig_isTablet s \<and> \<not> sig_isDesktop s \<and>
           \<not> sig_isPortrait s \<and> \<not> sig_isLandscape s \<and>
           html_classList s = html"
proof -
  note c = construct_on_server [OF assms, of html]
  from assms have "window e = None" by (simp add: server_env_def)
  then show ?thesis
    by (simp add: c run_no_window sig_browser_def sig_os_def sig_platform_def)
qed

theorem non_interactive_defaults_witness:
  "\<exists>s. construct on_server {''theme-a''} = Inr s \<and>
       run s [Resize 1920 1080, ColorSchemeChange True] = Inr s \<and>
       sig_platform s = Mobile \<and> sig_browser s = OtherBrowser \<and> sig_os s = OtherOS \<and>
       html_classList s = {''theme-a''}"
proof -
  have "server_env on_server" by (simp add: server_env_def on_server_def)
  from non_interactive_defaults [OF this, of "{''theme-a''}" "[Resize 1920 1080, ColorSchemeChange True]"]
  show ?thesis by blast
qed

text \<open>
  The claim as it was stated, with \<^verbatim>\<open>platform\<close> equal to \<^verbatim>\<open>desktop\<close> outside a browser, fails.
\<close>

theorem non_interactive_platform_counterexample:
  "server_env on_server \<and>
   (case construct on_server {} of
      Inl err \<Rightarrow> False
    | Inr s \<Rightarrow> sig_platform s = Mobile \<and> sig_platform s \<noteq> Desktop)"
proof -
  have s: "server_env on_server" by (simp add: server_env_def on_server_def)
  show ?thesis
    by (simp add: s construct_on_server [OF s] sig_platform_def)
qed

text \<open>
  C5. In every snapshot the service holds, from construction on and after any sequence of
  change notifications, the breakpoint and the device fields agree: the breakpoint is lg, xl
  or 2xl exactly when \<^verbatim>\<open>isDesktop\<close>, md exactly when \<^verbatim>\<open>isTablet\<close>, and xs or sm exactly when
  \<^verbatim>\<open>isMobile\<close>; and the snapshot's breakpoint is the one \<^verbatim>\<open>currentBreakpoint\<close> returns.
\<close>

theorem snapshot_breakpoint_agrees_with_device:
  assumes "construct e html = Inr s0" and "run s0 evs = Inr s"
  shows "\<exists>st. sig_state s = Some st \<and>
           (breakpoint st \<in> {BP_lg, BP_xl, BP_2xl} \<longleftrightarrow> isDesktop st) \<and>
           (breakpoint st = BP_md \<longleftrightarrow> isTablet st) \<and>
           (breakpoint st \<in> {BP_xs, BP_sm} \<longleftrightarrow> isMobile st) \<and>
           breakpoint st = sig_currentBreakpoint s"
proof -
  have "snapshot_current s"
    using construct_snapshot_current [OF assms(1)] run_snapshot_current assms(2) by blast
  then show ?thesis
    by (auto simp: snapshot_current_def snapshot_agrees_def split: option.splits)
qed

theorem snapshot_breakpoint_agrees_with_device_witness:
  "\<exists>s0 s st. construct (in_browser (browser_window 1300 700 False edge_userAgent)) {} = Inr s0 \<and>
             run s0 [Resize 800 600, ColorSchemeChange True] = Inr s \<and>
             sig_state s = Some st \<and> breakpoint st = BP_md \<and>
             isTablet st \<and> \<not> isDesktop st \<and> \<not> isMobile st"
proof -
  let ?w = "browser_window 1300 700 False edge_userAgent"
  let ?e = "in_browser ?w"
  let ?evs = "[Resize 800 600, ColorSchemeChange True]"
  have b: "browser_env ?e" and w: "window ?e = Some ?w"
    by (simp_all add: browser_env_def in_browser_def)
  obtain s0 s where c: "construct ?e {} = Inr s0" and r: "run s0 ?evs = Inr s"
    using service_in_browser [OF b w] by blast
  have bp: "sig_currentBreakpoint s = BP_md"
    using run_deterministic_environment(2) [OF b w c r]
    by (simp add: breakpoint_of_width_def browser_window_def)
  from snapshot_breakpoint_agrees_with_device [OF c r] bp c r show ?thesis
    by auto
qed

text \<open>
  C6. Browser detection follows the precedence edge, chrome, firefox, safari: in a browser
  it returns the first of these whose pattern occurs in the lower-cased user agent and
  \<^verbatim>\<open>other\<close> when none occurs; a user agent that contains both \<^verbatim>\<open>edg/\<close> and \<^verbatim>\<open>chrome\<close> is
  \<^verbatim>\<open>edge\<close>. Where the CDK reports no browser it returns \<^verbatim>\<open>other\<close>.
\<close>

theorem detectBrowser_precedence:
  "(\<not> cdkPlatform_isBrowser e \<longrightarrow> detectBrowser e = Inr OtherBrowser) \<and>
   (cdkPlatform_isBrowser e \<and> window e = Some w \<longrightarrow>
      detectBrowser e = Inr (browser_by_precedence (userAgent w)) \<and>
      (includes_str (toLowerCase (userAgent w)) ''edg/'' \<and>
       includes_str (toLowerCase (userAgent w)) ''chrome'' \<longrightarrow>
         detectBrowser e = Inr Edge) \<and>
      (\<not> includes_str (toLowerCase (userAgent w)) ''edg/'' \<and>
       \<not> includes_str (toLowerCase (userAgent w)) ''chrome'' \<and>
       \<not> includes_str (toLowerCase (userAgent w)) ''firefox'' \<and>
       \<not> includes_str (toLowerCase (userAgent w)) ''safari'' \<longrightarrow>
         detectBrowser e = Inr OtherBrowser))"
  by (simp add: detectBrowser_def browser_by_precedence_def Let_def)

theorem detectBrowser_precedence_witness:
  "includes_str (toLowerCase edge_userAgent) ''edg/'' \<and>
   includes_str (toLowerCase edge_userAgent) ''chrome'' \<and>
   detectBrowser (in_browser (browser_window 1280 800 False edge_userAgent)) = Inr Edge \<and>
   detectBrowser (in_browser (browser_window 1280 800 False curl_userAgent)) = Inr OtherBrowser \<and>
   detectBrowser on_server = Inr OtherBrowser"
proof -
  let ?w = "browser_window 1280 800 False edge_userAgent"
  let ?c = "browser_window 1280 800 False curl_userAgent"
  have edg: "includes_str (toLowerCase (userAgent ?w)) ''edg/''"
    by code_simp
  have chrome: "includes_str (toLowerCase (userAgent ?w)) ''chrome''"
    by code_simp
  have b: "cdkPlatform_isBrowser (in_browser ?w) \<and> window (in_browser ?w) = Some ?w"
    by (simp add: in_browser_def)
  have "detectBrowser (in_browser ?w) = Inr Edge"
    using detectBrowser_precedence [of "in_browser ?w" ?w] b edg chrome by blast
  moreover have "detectBrowser (in_browser ?c) = Inr OtherBrowser"
  proof -
    have "cdkPlatform_isBrowser (in_browser ?c) \<and> window (in_browser ?c) = Some ?c"
      by (simp add: in_browser_def)
    moreover have "\<not> includes_str (toLowerCase (userAgent ?c)) ''edg/''"
      "\<not> includes_str (toLowerCase (userAgent ?c)) ''chrome''"
      "\<not> includes_str (toLowerCase (userAgent ?c)) ''firefox''"
      "\<not> includes_str (toLowerCase (userAgent ?c)) ''safari''"
      by code_simp+
    ultimately show ?thesis
      using detectBrowser_precedence [of "in_browser ?c" ?c] by blast
  qed
  moreover have "detectBrowser on_server = Inr OtherBrowser"
    using detectBrowser_precedence [of on_server ?w] by (simp add: on_server_def)
  moreover have "userAgent ?w = edge_userAgent" by (simp add: browser_window_def)
  ultimately show ?thesis using edg chrome by simp
qed

text \<open>
  C7, evaluated. Safari on an iPhone sends a user agent that contains \<^verbatim>\<open>iphone\<close> and, in
  \<^verbatim>\<open>like Mac OS X\<close>, also \<^verbatim>\<open>mac\<close>; the test for \<^verbatim>\<open>mac\<close> comes first, so the result is
  \<^verbatim>\<open>macos\<close> and not \<^verbatim>\<open>ios\<close>.
\<close>

theorem detectOS_iphone_is_macos:
  "includes_str (toLowerCase iphone_userAgent) ''iphone'' \<and>
   detectOS (in_browser (browser_window 390 844 False iphone_userAgent)) = Inr MacOS"
  by code_simp

text \<open>
  C8. In a browser, construction puts the classes \<^verbatim>\<open>platform-\<close>, \<^verbatim>\<open>browser-\<close> and \<^verbatim>\<open>os-\<close> of
  the detected platform, browser and operating system on the root element and sets
  \<^verbatim>\<open>touch-enabled\<close> or \<^verbatim>\<open>touch-disabled\<close>, and changes no other class of these kinds. No
  later change notification adds or removes a class of these kinds, also when the width
  crosses a band and \<^verbatim>\<open>detectPlatform\<close> would answer differently. The \<^verbatim>\<open>bp-\<close> classes, the
  classes \<^verbatim>\<open>mobile\<close>, \<^verbatim>\<open>tablet\<close>, \<^verbatim>\<open>desktop\<close>, the orientation classes and the
  \<^verbatim>\<open>prefers-\<close> classes follow the environment as it is after the last notification.
\<close>

theorem static_classes_applied_once:
  assumes "browser_env e" and "window e = Some w"
  shows "\<exists>s0 s os' w'.
           construct e html = Inr s0 \<and> run s0 evs = Inr s \<and> detectOS e = Inr os' \<and>
           w' = fold apply_event evs w \<and>
           ''platform-'' @ platform_name (detectPlatform e) \<in> html_classList s0 \<and>
           ''browser-'' @ browser_name (browser_by_precedence (userAgent w)) \<in> html_classList s0 \<and>
           ''os-'' @ os_name os' \<in> html_classList s0 \<and>
           (''touch-enabled'' \<in> html_classList s0 \<longleftrightarrow> ontouchstart w \<or> 0 < maxTouchPoints w) \<and>
           (''touch-disabled'' \<in> html_classList s0 \<longleftrightarrow> \<not> (ontouchstart w \<or> 0 < maxTouchPoints w)) \<and>
           (\<forall>c. static_class c \<and>
                c \<noteq> ''platform-'' @ platform_name (detectPlatform e) \<and>
                c \<noteq> ''browser-'' @ browser_name (browser_by_precedence (userAgent w)) \<and>
                c \<noteq> ''os-'' @ os_name os' \<and>
                c \<noteq> ''touch-enabled'' \<and> c \<noteq> ''touch-disabled'' \<longrightarrow>
                (c \<in> html_classList s0 \<longleftrightarrow> c \<in> html)) \<and>
           (\<forall>c. static_class c \<longrightarrow> (c \<in> html_classList s \<longleftrightarrow> c \<in> html_classList s0)) \<and>
           (\<forall>bp. ''bp-'' @ bp_name bp \<in> html_classList s \<longleftrightarrow>
                 bp = breakpoint_of_width (viewportWidth w')) \<and>
           (''mobile'' \<in> html_classList s \<longleftrightarrow> viewportWidth w' \<le> 767) \<and>
           (''tablet'' \<in> html_classList s \<longleftrightarrow> 768 \<le> viewportWidth w' \<and> viewportWidth w' \<le> 1023) \<and>
           (''desktop'' \<in> html_classList s \<longleftrightarrow> 1024 \<le> viewportWidth w') \<and>
           (''orientation-portrait'' \<in> html_classList s \<longleftrightarrow> viewportWidth w' \<le> viewportHeight w') \<and>
           (''orientation-landscape'' \<in> html_classList s \<longleftrightarrow>
              \<not> viewportWidth w' \<le> viewportHeight w') \<and>
           (''prefers-dark'' \<in> html_classList s \<longleftrightarrow> prefersColorSchemeDark w') \<and>
           (''prefers-light'' \<in> html_classList s \<longleftrightarrow> \<not> prefersColorSchemeDark w')"
proof -
  obtain s0 s where c: "construct e html = Inr s0" and r: "run s0 evs = Inr s"
    using service_in_browser [OF assms] by blast
  obtain os' where os': "detectOS e = Inr os'"
    using detectOS_total [OF assms(1)] by blast
  note st = construct_static_classes [OF assms c os']
  note rc = browser_run_classes [OF assms c r]
  have f1: "\<forall>c. static_class c \<and>
                c \<noteq> ''platform-'' @ platform_name (detectPlatform e) \<and>
                c \<noteq> ''browser-'' @ browser_name (browser_by_precedence (userAgent w)) \<and>
                c \<noteq> ''os-'' @ os_name os' \<and>
                c \<noteq> ''touch-enabled'' \<and> c \<noteq> ''touch-disabled'' \<longrightarrow>
                (c \<in> html_classList s0 \<longleftrightarrow> c \<in> html)"
    using st(6) by blast
  have f2: "\<forall>c. static_class c \<longrightarrow> (c \<in> html_classList s \<longleftrightarrow> c \<in> html_classList s0)"
    using rc(9) by blast
  have f3: "\<forall>bp. ''bp-'' @ bp_name bp \<in> html_classList s \<longleftrightarrow>
                 bp = breakpoint_of_width (viewportWidth (fold apply_event evs w))"
    using rc(1) by blast
  show ?thesis
    apply (rule exI [of _ s0], rule exI [of _ s], rule exI [of _ os'])
    apply (rule exI [of _ "fold apply_event evs w"])
    apply (intro conjI)
    apply (rule c r os' refl st(1-5) rc(2-8) f1 f2 f3)+
    done
qed

theorem static_classes_applied_once_witness:
  "\<exists>s0 s. construct (in_browser (browser_window 1300 700 False edge_userAgent)) {} = Inr s0 \<and>
          run s0 [Resize 500 800] = Inr s \<and>
          detectPlatform (environment s0) = Desktop \<and>
          detectPlatform (environment s) = Mobile \<and>
          ''platform-desktop'' \<in> html_classList s \<and>
          ''platform-mobile'' \<notin> html_classList s \<and>
          ''browser-edge'' \<in> html_classList s \<and>
          ''os-windows'' \<in> html_classList s \<and>
          ''touch-disabled'' \<in> html_classList s \<and>
          ''touch-enabled'' \<notin> html_classList s \<and>
          ''bp-xl'' \<in> html_classList s0 \<and> ''desktop'' \<in> html_classList s0 \<and>
          ''bp-xs'' \<in> html_classList s \<and> ''bp-xl'' \<notin> html_classList s \<and>
          ''mobile'' \<in> html_classList s \<and> ''desktop'' \<notin> html_classList s \<and>
          ''orientation-portrait'' \<in> html_classList s \<and>
          ''prefers-light'' \<in> html_classList s"
proof -
  let ?w = "browser_window 1300 700 False edge_userAgent"
  let ?e = "in_browser ?w"
  have b: "browser_env ?e" and w: "window ?e = Some ?w"
    by (simp_all add: browser_env_def in_browser_def)
  have dp: "detectPlatform ?e = Desktop"
    by (simp add: detectPlatform_def checkMatch_def isMatched_def in_browser_def
        browser_window_def TAILWIND_BREAKPOINTS_defs)
  have db: "browser_by_precedence (userAgent ?w) = Edge" by code_simp
  have dos: "detectOS ?e = Inr Windows" by code_simp
  note inst = static_classes_applied_once [OF b w, of "{}" "[Resize 500 800]"]
  note inst0 = static_classes_applied_once [OF b w, of "{}" "[]"]
  from inst show ?thesis
  proof (elim exE conjE)
  fix s0 s os' w'
  assume c: "construct ?e {} = Inr s0" and r: "run s0 [Resize 500 800] = Inr s"
    and os': "detectOS ?e = Inr os'"
    and w': "w' = fold apply_event [Resize 500 800] ?w"
    and p0: "''platform-'' @ platform_name (detectPlatform ?e) \<in> html_classList s0"
    and b0: "''browser-'' @ browser_name (browser_by_precedence (userAgent ?w)) \<in> html_classList s0"
    and o0: "''os-'' @ os_name os' \<in> html_classList s0"
    and te0: "''touch-enabled'' \<in> html_classList s0 \<longleftrightarrow> ontouchstart ?w \<or> 0 < maxTouchPoints ?w"
    and td0: "''touch-disabled'' \<in> html_classList s0 \<longleftrightarrow> \<not> (ontouchstart ?w \<or> 0 < maxTouchPoints ?w)"
    and init: "\<forall>c. static_class c \<and>
                c \<noteq> ''platform-'' @ platform_name (detectPlatform ?e) \<and>
                c \<noteq> ''browser-'' @ browser_name (browser_by_precedence (userAgent ?w)) \<and>
                c \<noteq> ''os-'' @ os_name os' \<and>
                c \<noteq> ''touch-enabled'' \<and> c \<noteq> ''touch-disabled'' \<longrightarrow>
                (c \<in> html_classList s0 \<longleftrightarrow> c \<in> {})"
    and frame: "\<forall>c. static_class c \<longrightarrow> (c \<in> html_classList s \<longleftrightarrow> c \<in> html_classList s0)"
    and bp: "\<forall>bp. ''bp-'' @ bp_name bp \<in> html_classList s \<longleftrightarrow>
                 bp = breakpoint_of_width (viewportWidth w')"
    and mob: "''mobile'' \<in> html_classList s \<longleftrightarrow> viewportWidth w' \<le> 767"
    and desk: "''desktop'' \<in> html_classList s \<longleftrightarrow> 1024 \<le> viewportWidth w'"
    and port: "''orientation-portrait'' \<in> html_classList s \<longleftrightarrow>
                 viewportWidth w' \<le> viewportHeight w'"
    and light: "''prefers-light'' \<in> html_classList s \<longleftrightarrow> \<not> prefersColorSchemeDark w'"
  have w'_eq: "viewportWidth w' = 500" "viewportHeight w' = 800"
    "prefersColorSchemeDark w' = False"
    by (simp_all add: w' browser_window_def)
  from inst0 have bp0: "''bp-xl'' \<in> html_classList s0"
  proof (elim exE conjE)
    fix t0 t os'' w''
    assume c0: "construct ?e {} = Inr t0" and r0: "run t0 [] = Inr t"
      and w0: "w'' = fold apply_event [] ?w"
      and all_bp: "\<forall>bp. ''bp-'' @ bp_name bp \<in> html_classList t \<longleftrightarrow>
              bp = breakpoint_of_width (viewportWidth w'')"
    from c0 r0 c have t: "t = s0" by simp
    from all_bp have "''bp-'' @ bp_name BP_xl \<in> html_classList t \<longleftrightarrow>
              BP_xl = breakpoint_of_width (viewportWidth w'')"
      by (rule spec)
    then show ?thesis
      by (simp add: t w0 breakpoint_of_width_def browser_window_def)
  qed
  from inst0 have desk0: "''desktop'' \<in> html_classList s0"
  proof (elim exE conjE)
    fix t0 t os'' w''
    assume "construct ?e {} = Inr t0" and "run t0 [] = Inr t"
      and "w'' = fold apply_event [] ?w"
      and "''desktop'' \<in> html_classList t \<longleftrightarrow> 1024 \<le> viewportWidth w''"
    moreover from this c have "t = s0" by simp
    ultimately show ?thesis by (simp add: browser_window_def)
  qed
  from os' dos have os_w: "os' = Windows" by simp
  have e0: "environment s0 = ?e" by (rule construct_fields(1) [OF c])
  have e1: "environment s = ?e\<lparr>window := Some (fold apply_event [Resize 500 800] ?w)\<rparr>"
    by (rule run_deterministic_environment(1) [OF b w c r])
  have "detectPlatform (environment s) = Mobile"
    by (simp add: e1 detectPlatform_def checkMatch_def isMatched_def in_browser_def
        browser_window_def TAILWIND_BREAKPOINTS_defs)
  moreover have "''platform-desktop'' \<in> html_classList s"
    using p0 frame by (simp add: dp static_class_def)
  moreover have "''platform-mobile'' \<notin> html_classList s"
    using init frame by (simp add: dp db os_w static_class_def)
  moreover have "''browser-edge'' \<in> html_classList s"
    using b0 frame by (simp add: db static_class_def)
  moreover have "''os-windows'' \<in> html_classList s"
    using o0 frame by (simp add: os_w static_class_def)
  moreover have "''touch-disabled'' \<in> html_classList s"
    using td0 frame by (simp add: static_class_def browser_window_def)
  moreover have "''touch-enabled'' \<notin> html_classList s"
    using te0 frame by (simp add: static_class_def browser_window_def)
  moreover note bp0 desk0
  moreover have "''bp-xs'' \<in> html_classList s"
    using bp [rule_format, of BP_xs] by (simp add: breakpoint_of_width_def w'_eq)
  moreover have "''bp-xl'' \<notin> html_classList s"
    using bp [rule_format, of BP_xl] by (simp add: breakpoint_of_width_def w'_eq)
  moreover have "''mobile'' \<in> html_classList s" using mob by (simp add: w'_eq)
  moreover have "''desktop'' \<notin> html_classList s" using desk by (simp add: w'_eq)
  moreover have "''orientation-portrait'' \<in> html_classList s" using port by (simp add: w'_eq)
  moreover have "''prefers-light'' \<in> html_classList s" using light by (simp add: w'_eq)
  ultimately show ?thesis
    using c r dp e0 by simp
  qed
qed

text \<open>
  C9. In a browser, a user agent in which \<^verbatim>\<open>win\<close> occurs anywhere, also inside another
  word, is detected as \<^verbatim>\<open>windows\<close>, whatever else occurs in it.
\<close>

theorem detectOS_win_substring:
  assumes "cdkPlatform_isBrowser e" and "window e = Some w"
    and "includes_str (toLowerCase (userAgent w)) ''win''"
  shows "detectOS e = Inr Windows"
  using assms by (simp add: detectOS_def)

theorem detectOS_win_substring_witness:
  "includes_str (toLowerCase darwin_userAgent) ''mac'' \<and>
   includes_str (toLowerCase darwin_userAgent) ''linux'' \<and>
   includes_str (toLowerCase darwin_userAgent) ''iphone'' \<and>
   includes_str (toLowerCase darwin_userAgent) ''android'' \<and>
   \<not> includes_str (toLowerCase darwin_userAgent) ''windows'' \<and>
   detectOS (in_browser (browser_window 1280 800 False darwin_userAgent)) = Inr Windows"
proof -
  let ?w = "browser_window 1280 800 False darwin_userAgent"
  have ua: "userAgent ?w = darwin_userAgent" by (simp add: browser_window_def)
  have win: "includes_str (toLowerCase (userAgent ?w)) ''win''"
    by code_simp
  have "detectOS (in_browser ?w) = Inr Windows"
    by (rule detectOS_win_substring [OF _ _ win]) (simp_all add: in_browser_def)
  moreover have "includes_str (toLowerCase darwin_userAgent) ''mac''"
    by code_simp
  moreover have "includes_str (toLowerCase darwin_userAgent) ''linux''"
    by code_simp
  moreover have "includes_str (toLowerCase darwin_userAgent) ''iphone''"
    by code_simp
  moreover have "includes_str (toLowerCase darwin_userAgent) ''android''"
    by code_simp
  moreover have "\<not> includes_str (toLowerCase darwin_userAgent) ''windows''"
    by code_simp
  ultimately show ?thesis by simp
qed

text \<open>
  C10. The two derivations of the platform agree. A snapshot computed in an environment has
  the platform \<^verbatim>\<open>detectPlatform\<close> returns there; and at any time after construction the
  \<^verbatim>\<open>platform\<close> accessor is what \<^verbatim>\<open>detectPlatform\<close> would return in the current environment.
\<close>

theorem detectPlatform_agrees_with_snapshot:
  "(state_map e bp = Inr st \<longrightarrow> platform st = detectPlatform e) \<and>
   (construct e html = Inr s0 \<and> run s0 evs = Inr s \<longrightarrow>
      sig_platform s = detectPlatform (environment s))"
proof -
  have "platform st = detectPlatform e" if "state_map e bp = Inr st"
    using state_map_fields(5) [OF that] by (simp add: detectPlatform_def checkMatch_def)
  moreover have "sig_platform s = detectPlatform (environment s)"
    if "construct e html = Inr s0" and "run s0 evs = Inr s"
  proof -
    have "snapshot_current s"
      using construct_snapshot_current [OF that(1)] run_snapshot_current that(2) by blast
    then show ?thesis
      by (auto simp: snapshot_current_def sig_platform_def split: option.splits)
  qed
  ultimately show ?thesis by blast
qed

theorem detectPlatform_agrees_with_snapshot_witness:
  "\<exists>s0 s st.
     state_map (in_browser (browser_window 1300 700 False edge_userAgent)) BP_xl = Inr st \<and>
     platform st = Desktop \<and>
     construct (in_browser (browser_window 1300 700 False edge_userAgent)) {} = Inr s0 \<and>
     sig_platform s0 = Desktop \<and>
     run s0 [Resize 800 600] = Inr s \<and>
     detectPlatform (environment s) = Tablet \<and> sig_platform s = Tablet"
proof -
  let ?w = "browser_window 1300 700 False edge_userAgent"
  let ?e = "in_browser ?w"
  have b: "browser_env ?e" and w: "window ?e = Some ?w"
    by (simp_all add: browser_env_def in_browser_def)
  obtain st where st: "state_map ?e BP_xl = Inr st"
    using state_map_in_browser [OF b] by blast
  obtain s0 s where c: "construct ?e {} = Inr s0" and r: "run s0 [Resize 800 600] = Inr s"
    using service_in_browser [OF b w] by blast
  have r0: "run s0 [] = Inr s0" by simp
  have e0: "environment s0 = ?e" by (rule construct_fields(1) [OF c])
  have e1: "environment s = ?e\<lparr>window := Some (fold apply_event [Resize 800 600] ?w)\<rparr>"
    by (rule run_deterministic_environment(1) [OF b w c r])
  have d: "detectPlatform ?e = Desktop"
    by (simp add: detectPlatform_def checkMatch_def isMatched_def in_browser_def
        browser_window_def TAILWIND_BREAKPOINTS_defs)
  have d1: "detectPlatform (environment s) = Tablet"
    by (simp add: e1 detectPlatform_def checkMatch_def isMatched_def in_browser_def
        browser_window_def TAILWIND_BREAKPOINTS_defs)
  have "platform st = Desktop \<and> sig_platform s0 = Desktop"
    using detectPlatform_agrees_with_snapshot [of ?e BP_xl st "{}" s0 "[]" s0] st c r0 d e0
    by simp
  moreover have "sig_platform s = Tablet"
    using detectPlatform_agrees_with_snapshot [of ?e BP_xl st "{}" s0 "[Resize 800 600]" s]
      c r d1
    by simp
  ultimately show ?thesis using st c r d1 by blast
qed

end
